theory Spec2Isabelle
  imports Complex_Main "HOL-Library.Word"
begin

section \<open>JavaScript values\<close>

text \<open>
  A JavaScript string is a sequence of UTF-16 code units: \<open>length\<close>, \<open>slice\<close>,
  \<open>substring\<close> and \<open>startsWith\<close> all count code units. String literals of the
  source are ASCII and are written \<open>js_lit ''...''\<close>.
\<close>

type_synonym code_unit = "16 word"
type_synonym js_string = "code_unit list"

definition js_lit :: "string \<Rightarrow> js_string" where
  "js_lit s = map of_char s"

text \<open>
  The values the adapter handles: primitives and plain data (arrays and objects as
  they come out of JSON). Numbers are the finite ones; \<open>NaN\<close>, the infinities and
  rounding are outside the model. An object is its list of own properties, keys
  distinct.
\<close>

datatype jsval =
    JUndefined
  | JNull
  | JBool bool
  | JNum rat
  | JStr js_string
  | JArr "jsval list"
  | JObj "(js_string \<times> jsval) list"

text \<open>ToBoolean: what \<open>if (v)\<close>, \<open>!v\<close>, \<open>a && b\<close> and \<open>a || b\<close> test.\<close>

fun truthy :: "jsval \<Rightarrow> bool" where
  "truthy JUndefined = False"
| "truthy JNull = False"
| "truthy (JBool b) = b"
| "truthy (JNum n) = (n \<noteq> 0)"
| "truthy (JStr s) = (s \<noteq> [])"
| "truthy (JArr xs) = True"
| "truthy (JObj ps) = True"

text \<open>\<open>a || b\<close> on values.\<close>

definition js_or :: "jsval \<Rightarrow> jsval \<Rightarrow> jsval" where
  "js_or a b = (if truthy a then a else b)"

text \<open>
  \<open>s.slice(a, b)\<close> with non-negative integer arguments: the code units from index
  \<open>a\<close> up to, not including, index \<open>b\<close>, both clamped to the length.
\<close>

definition js_slice :: "'a list \<Rightarrow> nat \<Rightarrow> nat \<Rightarrow> 'a list" where
  "js_slice s a b = drop a (take b s)"

text \<open>
  Thrown values: what the platform and the libraries throw are \<open>Error\<close> objects,
  told apart here by constructor and message.
\<close>

datatype js_error = Error js_string | TypeError js_string

fun message :: "js_error \<Rightarrow> js_string" where
  "message (Error m) = m"
| "message (TypeError m) = m"

text \<open>
  Builtins of the platform that the adapter calls and that are not part of the
  repository: \<open>JSON.stringify(v)\<close>, \<open>JSON.stringify(v, null, 2)\<close> inside a template
  literal, and \<open>TextEncoder.encode\<close>. They are parameters of the model.
\<close>

record platform =
  json_stringify :: "jsval \<Rightarrow> js_string"
  json_stringify_indent2 :: "jsval \<Rightarrow> js_string"
  text_encode :: "js_string \<Rightarrow> 8 word list"

section \<open>The generation result\<close>

text \<open>
  What \<open>agent.generate\<close> resolves to, as far as \<open>createStreamFromMastraResponse\<close>
  reads it: \<open>response.text\<close>, \<open>response.steps\<close>, \<open>step.toolCalls\<close>,
  \<open>toolCall.name\<close> and \<open>toolCall.result\<close>. A property that is absent
  (\<open>undefined\<close>) is \<open>None\<close>; a tool result is any value, \<open>JUndefined\<close> when
  absent.
\<close>

record tool_call =
  tc_name :: "js_string option"
  tc_args :: jsval
  tc_result :: jsval

record step =
  step_toolCalls :: "tool_call list option"

record response =
  resp_text :: "js_string option"
  resp_steps :: "step list option"

section \<open>The stream emitter: createStreamFromMastraResponse\<close>

text \<open>A chunk is the object \<open>{choices: [{delta: {content: c}}]}\<close>.\<close>

datatype chunk = Chunk (content: js_string)

definition chunk_json :: "chunk \<Rightarrow> jsval" where
  "chunk_json c =
     JObj [(js_lit ''choices'',
       JArr [JObj [(js_lit ''delta'', JObj [(js_lit ''content'', JStr (content c))])]])]"

definition chunkSize :: nat where
  "chunkSize = 50"

text \<open>
  Lines 292-300: \<open>for (let i = 0; i < text.length; i += chunkSize) chunks.push(...)\<close>,
  as a function of the loop variable and of the array built so far.
\<close>

function split_loop :: "js_string \<Rightarrow> nat \<Rightarrow> chunk list \<Rightarrow> chunk list" where
  "split_loop tx i chunks =
     (if i < length tx
      then split_loop tx (i + chunkSize) (chunks @ [Chunk (js_slice tx i (i + chunkSize))])
      else chunks)"
  by pat_completeness auto
termination
  by (relation "measure (\<lambda>(tx, i, chunks). length tx - i)") (auto simp: chunkSize_def)

declare split_loop.simps [simp del]

text \<open>Lines 289-301: \<open>if (response.text) { ... }\<close>; the empty string is falsy.\<close>

definition text_chunks :: "response \<Rightarrow> chunk list" where
  "text_chunks r =
     (case resp_text r of
        None \<Rightarrow> []
      | Some tx \<Rightarrow> if tx \<noteq> [] then split_loop tx 0 [] else [])"

text \<open>
  Line 312: \<open>toolCall.name && toolCall.result && toolCall.result !== undefined\<close>.
\<close>

definition name_truthy :: "js_string option \<Rightarrow> bool" where
  "name_truthy n = (case n of None \<Rightarrow> False | Some s \<Rightarrow> s \<noteq> [])"

definition valid_tool_call :: "tool_call \<Rightarrow> bool" where
  "valid_tool_call tc =
     (name_truthy (tc_name tc) \<and> truthy (tc_result tc) \<and> tc_result tc \<noteq> JUndefined)"

text \<open>\<open>${toolCall.name}\<close> in the template literal of line 313.\<close>

definition name_text :: "js_string option \<Rightarrow> js_string" where
  "name_text n = (case n of None \<Rightarrow> js_lit ''undefined'' | Some s \<Rightarrow> s)"

text \<open>
  Lines 310-316, the inner loop; the pair is \<open>(toolResults, hasValidToolResults)\<close>.
\<close>

fun tool_calls_loop ::
  "platform \<Rightarrow> tool_call list \<Rightarrow> js_string \<times> bool \<Rightarrow> js_string \<times> bool" where
  "tool_calls_loop p [] acc = acc"
| "tool_calls_loop p (toolCall # rest) (toolResults, hasValid) =
     (if valid_tool_call toolCall
      then tool_calls_loop p rest
             (toolResults @ js_lit ''\<newline>- '' @ name_text (tc_name toolCall) @ js_lit '': ''
                @ json_stringify_indent2 p (tc_result toolCall) @ js_lit ''\<newline>'',
              True)
      else tool_calls_loop p rest (toolResults, hasValid))"

text \<open>Lines 308-318, the outer loop: \<open>if (step.toolCalls)\<close>; an array is truthy.\<close>

fun steps_loop ::
  "platform \<Rightarrow> step list \<Rightarrow> js_string \<times> bool \<Rightarrow> js_string \<times> bool" where
  "steps_loop p [] acc = acc"
| "steps_loop p (s # rest) acc =
     (case step_toolCalls s of
        None \<Rightarrow> steps_loop p rest acc
      | Some tcs \<Rightarrow> steps_loop p rest (tool_calls_loop p tcs acc))"

definition tool_header :: js_string where
  "tool_header = js_lit ''\<newline>\<newline>**Learning Tools Used:**\<newline>''"

text \<open>Lines 304-330: the chunks pushed for the tool results, none or one.\<close>

definition tool_chunks :: "platform \<Rightarrow> response \<Rightarrow> chunk list" where
  "tool_chunks p r =
     (case resp_steps r of
        None \<Rightarrow> []
      | Some ss \<Rightarrow>
          if length ss > 0
          then (case steps_loop p ss (tool_header, False) of
                  (toolResults, hasValidToolResults) \<Rightarrow>
                    if hasValidToolResults then [Chunk toolResults] else [])
          else [])"

text \<open>The array \<open>chunks\<close> at line 341, when the stream is constructed.\<close>

definition response_chunks :: "platform \<Rightarrow> response \<Rightarrow> chunk list" where
  "response_chunks p r = text_chunks r @ tool_chunks p r @ [Chunk []]"

text \<open>
  What the stream's controller is asked to do, in order. \<open>SetTimeout\<close> is the timer
  that \<open>sendChunk\<close> arms for its next run; the sequence below is the one an
  uncancelled stream goes through as each timer fires.
\<close>

datatype stream_event = Enqueue "8 word list" | SetTimeout nat | Close

definition data_line :: "platform \<Rightarrow> chunk \<Rightarrow> js_string" where
  "data_line p c = js_lit ''data: '' @ json_stringify p (chunk_json c) @ js_lit ''\<newline>\<newline>''"

definition done_line :: js_string where
  "done_line = js_lit ''data: [DONE]\<newline>\<newline>''"

text \<open>Lines 348-361, \<open>sendChunk\<close>, as a function of \<open>chunkIndex\<close>.\<close>

function sendChunk :: "platform \<Rightarrow> chunk list \<Rightarrow> nat \<Rightarrow> stream_event list" where
  "sendChunk p chunks chunkIndex =
     (if chunkIndex < length chunks
      then Enqueue (text_encode p (data_line p (chunks ! chunkIndex)))
             # SetTimeout 50
             # sendChunk p chunks (chunkIndex + 1)
      else [Enqueue (text_encode p done_line), Close])"
  by pat_completeness auto
termination
  by (relation "measure (\<lambda>(p, chunks, chunkIndex). length chunks - chunkIndex)") auto

declare sendChunk.simps [simp del]

record stream_response =
  body :: "stream_event list"

definition createStreamFromMastraResponse :: "platform \<Rightarrow> response \<Rightarrow> stream_response" where
  "createStreamFromMastraResponse p r = \<lparr>body = sendChunk p (response_chunks p r) 0\<rparr>"

section \<open>The world outside the module\<close>

text \<open>
  Property reads \<open>v.content\<close>, \<open>v.type\<close>, \<open>v.text\<close>, \<open>v.error\<close> and
  \<open>v.message\<close>: a \<open>TypeError\<close> on \<open>undefined\<close> and \<open>null\<close>, the own property
  of an object, and \<open>undefined\<close> otherwise (none of these names is a property of a
  boolean, a number, a string or an array).
\<close>

fun get_prop :: "jsval \<Rightarrow> string \<Rightarrow> js_error + jsval" where
  "get_prop JUndefined n =
     Inl (TypeError (js_lit ''Cannot read properties of undefined (reading '' @ js_lit n @ js_lit '')''))"
| "get_prop JNull n =
     Inl (TypeError (js_lit ''Cannot read properties of null (reading '' @ js_lit n @ js_lit '')''))"
| "get_prop (JObj ps) n = Inr (case map_of ps (js_lit n) of None \<Rightarrow> JUndefined | Some v \<Rightarrow> v)"
| "get_prop v n = Inr JUndefined"

text \<open>A non-negative integer in a template literal: its decimal digits.\<close>

function show_nat :: "nat \<Rightarrow> js_string" where
  "show_nat n =
     (if n < 10 then [of_nat (48 + n)]
      else show_nat (n div 10) @ [of_nat (48 + n mod 10)])"
  by pat_completeness auto
termination
  by (relation "measure id") auto

declare show_nat.simps [simp del]

text \<open>
  The module's four variables (lines 4-7). An agent is an object: \<open>agent_ref\<close> is
  its identity, the other fields are what the constructor call of lines 157-203 was
  given that varies from one call to the next (the name and the instructions are
  constants).
\<close>

datatype modules = Modules
datatype mcp_client = MCPClient

record memory =
  mem_url :: js_string
  mem_embedder_key :: jsval

record agent =
  agent_ref :: nat
  agent_model_key :: jsval
  agent_tools :: jsval
  agent_memory :: memory

text \<open>The options object that \<open>agent.generate\<close> is called with (lines 264-270).\<close>

record generate_options =
  go_maxSteps :: jsval
  go_resourceId :: jsval
  go_threadId :: jsval
  go_apiKey :: jsval

text \<open>
  Everything the module does to its surroundings, in order: console output (the
  message text, then the values printed after it or interpolated into it) and the
  calls that leave the module.
\<close>

datatype level = LevelLog | LevelWarn | LevelError

datatype log_arg = Val jsval | Err js_error

datatype effect =
    Console level string "log_arg list"
  | SetEnvApiKey jsval
  | ImportModules
  | NewMCPClient
  | GetTools
  | ExistsSync js_string
  | MkdirSync js_string
  | NewMemory memory
  | NewAgent agent
  | Generate agent "jsval list" generate_options
  | Fetch js_string js_string

record state =
  teachingAssistantAgent :: "agent option"
  mastraModules :: "modules option"
  mcpClient :: "mcp_client option"
  currentApiKey :: jsval
  next_ref :: nat
  effects :: "effect list"

definition initial_state :: state where
  "initial_state =
     \<lparr>teachingAssistantAgent = None, mastraModules = None, mcpClient = None,
      currentApiKey = JNull, next_ref = 0, effects = []\<rparr>"

text \<open>What \<open>fetch\<close> resolves to, as far as \<open>validateApiKey\<close> reads it.\<close>

record http_response =
  http_ok :: bool
  http_status :: nat
  http_json :: "js_error + jsval"

text \<open>
  How the surroundings answer during one call of an exported function: for each
  call that leaves the module, the value it returns or the error it throws
  (\<open>None\<close>: no error).
\<close>

record world =
  import_result :: "js_error option"
  mcp_new_result :: "js_error option"
  getTools_result :: "js_error + jsval"
  tmpdir :: js_string
  path_join :: "js_string \<Rightarrow> js_string \<Rightarrow> js_string"
  existsSync_result :: bool
  mkdirSync_result :: "js_error option"
  memory_new_result :: "js_error option"
  agent_new_result :: "js_error option"
  date_now :: nat
  generate_result :: "agent \<Rightarrow> jsval list \<Rightarrow> generate_options \<Rightarrow> js_error + response"
  fetch_result :: "js_string \<Rightarrow> js_string \<Rightarrow> js_error + http_response"
  builtins :: platform

type_synonym 'a action = "state \<Rightarrow> (js_error + 'a) \<times> state"

text \<open>Sequencing: a thrown error skips what follows.\<close>

definition seq :: "'a action \<Rightarrow> ('a \<Rightarrow> 'b action) \<Rightarrow> 'b action" where
  "seq m f s = (case m s of (Inl e, s') \<Rightarrow> (Inl e, s') | (Inr x, s') \<Rightarrow> f x s')"

definition emit :: "effect \<Rightarrow> state \<Rightarrow> state" where
  "emit e s = s\<lparr>effects := effects s @ [e]\<rparr>"

definition do_emit :: "effect \<Rightarrow> unit action" where
  "do_emit e s = (Inr (), emit e s)"

text \<open>An external call that returns nothing or throws.\<close>

definition external :: "effect \<Rightarrow> js_error option \<Rightarrow> unit action" where
  "external e r s = (case r of None \<Rightarrow> (Inr (), emit e s) | Some err \<Rightarrow> (Inl err, emit e s))"

section \<open>loadMastraModules\<close>

text \<open>
  Lines 10-43. The cached module set is returned at once; otherwise the five
  dynamic imports run, and a failure is logged and thrown again, with nothing
  cached.
\<close>

definition loadMastraModules :: "world \<Rightarrow> modules action" where
  "loadMastraModules w s =
     (case mastraModules s of
        Some m \<Rightarrow> (Inr m, s)
      | None \<Rightarrow>
          (case import_result w of
             None \<Rightarrow>
               (Inr Modules,
                emit (Console LevelLog ''[Mastra] All modules loaded successfully'' [])
                  ((emit ImportModules s)\<lparr>mastraModules := Some Modules\<rparr>))
           | Some err \<Rightarrow>
               (Inl err,
                emit (Console LevelError ''[Mastra] Failed to load modules:'' [Err err])
                  (emit ImportModules s))))"

section \<open>initializeTeachingAssistant\<close>

text \<open>
  \<open>apiKey ? apiKey.substring(0, 7) + '...' : 'null'\<close> (lines 49 and 155). A truthy
  value that is not a string has no \<open>substring\<close> method: the call throws.
\<close>

definition key_preview :: "jsval \<Rightarrow> js_error + js_string" where
  "key_preview apiKey =
     (if truthy apiKey
      then (case apiKey of
              JStr k \<Rightarrow> Inr (take 7 k @ js_lit ''...'')
            | _ \<Rightarrow> Inl (TypeError (js_lit ''apiKey.substring is not a function'')))
      else Inr (js_lit ''null''))"

text \<open>Lines 71-81: the MCP client is created once and kept.\<close>

definition ensure_mcpClient :: "world \<Rightarrow> unit action" where
  "ensure_mcpClient w s =
     (case mcpClient s of
        Some c \<Rightarrow> (Inr (), s)
      | None \<Rightarrow>
          (case mcp_new_result w of
             None \<Rightarrow> (Inr (), (emit NewMCPClient s)\<lparr>mcpClient := Some MCPClient\<rparr>)
           | Some err \<Rightarrow> (Inl err, emit NewMCPClient s)))"

text \<open>
  Lines 84-90: \<open>courseTools\<close> starts as the empty array; a failure of
  \<open>mcpClient.getTools()\<close> is caught, logged with \<open>console.warn\<close> and dropped.
\<close>

definition get_courseTools :: "world \<Rightarrow> jsval action" where
  "get_courseTools w s =
     (case getTools_result w of
        Inr tools \<Rightarrow>
          (Inr tools,
           emit (Console LevelLog ''[Mastra] Successfully connected to MCP course server'' [])
             (emit GetTools s))
      | Inl mcpError \<Rightarrow>
          (Inr (JArr []),
           emit (Console LevelWarn
                   ''[Mastra] Failed to connect to MCP server, continuing without course tools:''
                   [Val (JStr (message mcpError))])
             (emit GetTools s)))"

text \<open>Lines 93-103: the directory of the memory database, created when missing.\<close>

definition userDataPath :: "world \<Rightarrow> js_string" where
  "userDataPath w = path_join w (tmpdir w) (js_lit ''halo-mastra'')"

definition memoryDbPath :: "world \<Rightarrow> js_string" where
  "memoryDbPath w = path_join w (userDataPath w) (js_lit ''teaching-assistant-memory.db'')"

definition ensure_directory :: "world \<Rightarrow> unit action" where
  "ensure_directory w =
     seq (do_emit (ExistsSync (userDataPath w))) (\<lambda>_.
     seq (if \<not> existsSync_result w
          then external (MkdirSync (userDataPath w)) (mkdirSync_result w)
          else (\<lambda>s. (Inr (), s))) (\<lambda>_.
     do_emit (Console LevelLog ''[Mastra] Using memory database at:'' [Val (JStr (memoryDbPath w))])))"

text \<open>Lines 106-153: the memory, its store and vector on the same file.\<close>

definition new_Memory :: "world \<Rightarrow> jsval \<Rightarrow> memory action" where
  "new_Memory w apiKey s =
     (let m = \<lparr>mem_url = js_lit ''file:'' @ memoryDbPath w, mem_embedder_key = apiKey\<rparr>
      in case memory_new_result w of
           None \<Rightarrow> (Inr m, emit (NewMemory m) s)
         | Some err \<Rightarrow> (Inl err, emit (NewMemory m) s))"

text \<open>
  Lines 157-203: \<open>teachingAssistantAgent = new Agent({...})\<close>. The variable is
  assigned only when the constructor returns.
\<close>

definition new_Agent :: "world \<Rightarrow> jsval \<Rightarrow> jsval \<Rightarrow> memory \<Rightarrow> agent action" where
  "new_Agent w apiKey courseTools mem s =
     (let a = \<lparr>agent_ref = next_ref s, agent_model_key = apiKey,
                agent_tools = courseTools, agent_memory = mem\<rparr>
      in case agent_new_result w of
           None \<Rightarrow>
             (Inr a, (emit (NewAgent a) s)\<lparr>teachingAssistantAgent := Some a,
                                          next_ref := Suc (next_ref s)\<rparr>)
         | Some err \<Rightarrow> (Inl err, emit (NewAgent a) s))"

text \<open>Lines 64-208, the body of the \<open>try\<close> block.\<close>

definition build_agent :: "world \<Rightarrow> jsval \<Rightarrow> js_string \<Rightarrow> agent action" where
  "build_agent w apiKey preview =
     seq (do_emit (SetEnvApiKey apiKey)) (\<lambda>_.
     seq (loadMastraModules w) (\<lambda>_.
     seq (ensure_mcpClient w) (\<lambda>_.
     seq (get_courseTools w) (\<lambda>courseTools.
     seq (ensure_directory w) (\<lambda>_.
     seq (new_Memory w apiKey) (\<lambda>mem.
     seq (do_emit (Console LevelLog
            ''[Mastra] Creating agent with OpenAI model using API key: '' [Val (JStr preview)])) (\<lambda>_.
     seq (new_Agent w apiKey courseTools mem) (\<lambda>a.
     seq (\<lambda>s. (Inr (), s\<lparr>currentApiKey := apiKey\<rparr>)) (\<lambda>_.
     seq (do_emit (Console LevelLog
            ''[Mastra] Teaching Assistant agent initialized successfully'' [])) (\<lambda>_ s.
     (Inr a, s)))))))))))"

text \<open>Lines 52-56: a cached agent built with another key is dropped.\<close>

definition reset_on_key_change :: "jsval \<Rightarrow> state \<Rightarrow> state" where
  "reset_on_key_change apiKey s =
     (if teachingAssistantAgent s \<noteq> None \<and> currentApiKey s \<noteq> apiKey
      then (emit (Console LevelLog
                    ''[Mastra] API key changed, reinitializing Teaching Assistant agent'' []) s)
             \<lparr>teachingAssistantAgent := None, currentApiKey := JNull\<rparr>
      else s)"

text \<open>
  Lines 48-214. \<open>===\<close> and \<open>!==\<close> are equality of values here: the key that
  reaches line 52 is a string or a falsy primitive, since line 49 throws on
  everything else, and a comparison with a primitive is a comparison of values.
\<close>

text \<open>Lines 63-213: the \<open>try\<close> block and its \<open>catch\<close>, which logs and throws again.\<close>

definition try_build_agent :: "world \<Rightarrow> jsval \<Rightarrow> js_string \<Rightarrow> agent action" where
  "try_build_agent w apiKey preview s =
     (case build_agent w apiKey preview s of
        (Inl err, s') \<Rightarrow>
          (Inl err,
           emit (Console LevelError
                   ''[Mastra] Failed to initialize Teaching Assistant agent:'' [Err err]) s')
      | (Inr a, s') \<Rightarrow> (Inr a, s'))"

definition initializeTeachingAssistant :: "world \<Rightarrow> jsval \<Rightarrow> agent action" where
  "initializeTeachingAssistant w apiKey s =
     (case key_preview apiKey of
        Inl err \<Rightarrow> (Inl err, s)
      | Inr preview \<Rightarrow>
          (let s1 = emit (Console LevelLog
                      ''[Mastra] initializeTeachingAssistant called with API key: ''
                      [Val (JStr preview)]) s;
               s2 = reset_on_key_change apiKey s1
           in case teachingAssistantAgent s2 of
                Some a \<Rightarrow>
                  if currentApiKey s2 = apiKey
                  then (Inr a,
                        emit (Console LevelLog
                                ''[Mastra] Reusing existing agent with same API key'' []) s2)
                  else try_build_agent w apiKey preview s2
              | None \<Rightarrow> try_build_agent w apiKey preview s2))"

section \<open>createMastraStream\<close>

text \<open>The \<open>options\<close> argument, \<open>{}\<close> by default: a missing property is \<open>undefined\<close>.\<close>

record stream_options =
  opt_resourceId :: jsval
  opt_threadId :: jsval
  opt_maxSteps :: jsval

definition no_options :: stream_options where
  "no_options = \<lparr>opt_resourceId = JUndefined, opt_threadId = JUndefined, opt_maxSteps = JUndefined\<rparr>"

text \<open>
  Lines 236-243, the loop over a multimodal content array, as far as it can be
  observed: \<open>hasImage\<close>, and the \<open>TypeError\<close> of reading \<open>content.type\<close> on
  \<open>undefined\<close> or \<open>null\<close>. The string \<open>prompt\<close> is built and never read.
\<close>

fun scan_parts :: "jsval list \<Rightarrow> bool \<Rightarrow> js_error + bool" where
  "scan_parts [] hasImage = Inr hasImage"
| "scan_parts (part # rest) hasImage =
     (case get_prop part ''type'' of
        Inl err \<Rightarrow> Inl err
      | Inr ty \<Rightarrow>
          if ty = JStr (js_lit ''text'') then scan_parts rest hasImage
          else if ty = JStr (js_lit ''image_url'') then scan_parts rest True
          else scan_parts rest hasImage)"

text \<open>Lines 229-248: \<open>messages[messages.length - 1]\<close> is \<open>undefined\<close> on an empty array.\<close>

definition last_message :: "jsval list \<Rightarrow> jsval" where
  "last_message messages = (if messages = [] then JUndefined else last messages)"

definition read_hasImage :: "jsval list \<Rightarrow> js_error + bool" where
  "read_hasImage messages =
     (case get_prop (last_message messages) ''content'' of
        Inl err \<Rightarrow> Inl err
      | Inr c \<Rightarrow>
          if truthy c
          then (case c of JArr parts \<Rightarrow> scan_parts parts False | _ \<Rightarrow> Inr False)
          else Inr False)"

definition throw :: "js_error \<Rightarrow> 'a action" where
  "throw err s = (Inl err, s)"

definition lift :: "js_error + 'a \<Rightarrow> 'a action" where
  "lift r s = (r, s)"

text \<open>
  Lines 251-252 and 264-270: the identifiers and the options object that
  \<open>agent.generate\<close> is given.
\<close>

definition generate_options_of :: "world \<Rightarrow> stream_options \<Rightarrow> jsval \<Rightarrow> generate_options" where
  "generate_options_of w options key =
     (let resourceId = js_or (opt_resourceId options) (JStr (js_lit ''halo_user_default''));
          threadId = js_or (opt_threadId options)
                       (JStr (js_lit ''session_'' @ show_nat (date_now w)))
      in \<lparr>go_maxSteps = js_or (opt_maxSteps options) (JNum 10),
          go_resourceId = resourceId, go_threadId = threadId, go_apiKey = key\<rparr>)"

text \<open>Lines 221-274, the body of the \<open>try\<close> block.\<close>

definition stream_body :: "world \<Rightarrow> jsval list \<Rightarrow> stream_options \<Rightarrow> stream_response action" where
  "stream_body w messages options s =
     (case teachingAssistantAgent s of
        None \<Rightarrow> throw (Error (js_lit ''Teaching Assistant agent not initialized'')) s
      | Some a \<Rightarrow>
          seq (do_emit (Console LevelLog ''[Mastra] Current API key stored: ''
                 [Val (JStr (js_lit (if truthy (currentApiKey s) then ''present'' else ''missing'')))])) (\<lambda>_.
          seq (do_emit (Console LevelLog ''[Mastra] Agent initialized: ''
                 [Val (JStr (js_lit ''yes''))])) (\<lambda>_.
          seq (lift (read_hasImage messages)) (\<lambda>hasImage.
          seq (do_emit (Console LevelLog ''[Mastra] Processing request with ''
                 [Val (JStr (js_lit (if hasImage then ''screenshot'' else ''text only'')))])) (\<lambda>_.
          seq (if \<not> truthy (currentApiKey s)
               then throw (Error (js_lit ''No API key available for Mastra agent generation''))
               else lift (Inr ())) (\<lambda>_.
          seq (do_emit (Generate a messages (generate_options_of w options (currentApiKey s)))) (\<lambda>_.
          seq (lift (generate_result w a messages
                       (generate_options_of w options (currentApiKey s)))) (\<lambda>response.
          lift (Inr (createStreamFromMastraResponse (builtins w) response))))))))) s)"

text \<open>Lines 219-280: the \<open>catch\<close> logs the error and throws it again.\<close>

definition createMastraStream :: "world \<Rightarrow> jsval list \<Rightarrow> stream_options \<Rightarrow> stream_response action" where
  "createMastraStream w messages options s =
     (case stream_body w messages options s of
        (Inl err, s') \<Rightarrow>
          (Inl err, emit (Console LevelError ''[Mastra] Error in createMastraStream:'' [Err err]) s')
      | (Inr r, s') \<Rightarrow> (Inr r, s'))"

section \<open>MastraProvider.validateApiKey\<close>

record validation =
  success :: bool
  error_message :: jsval

definition starts_with :: "js_string \<Rightarrow> js_string \<Rightarrow> bool" where
  "starts_with k pre = (take (length pre) k = pre)"

text \<open>Line 376: \<open>!apiKey || typeof apiKey !== 'string' || !apiKey.startsWith('sk-')\<close>.\<close>

definition bad_format :: "jsval \<Rightarrow> bool" where
  "bad_format apiKey =
     (\<not> truthy apiKey \<or>
      (case apiKey of JStr k \<Rightarrow> \<not> starts_with k (js_lit ''sk-'') | _ \<Rightarrow> True))"

definition key_string :: "jsval \<Rightarrow> js_string" where
  "key_string apiKey = (case apiKey of JStr k \<Rightarrow> k | _ \<Rightarrow> [])"

text \<open>
  Lines 389-391: \<open>response.json().catch(() => ({}))\<close>, then
  \<open>errorData.error?.message || `Validation failed with status: ${response.status}`\<close>.
\<close>

definition failure_message :: "http_response \<Rightarrow> js_error + jsval" where
  "failure_message resp =
     (let errorData = (case http_json resp of Inl err \<Rightarrow> JObj [] | Inr v \<Rightarrow> v)
      in case get_prop errorData ''error'' of
           Inl err \<Rightarrow> Inl err
         | Inr e \<Rightarrow>
             (case (if e = JUndefined \<or> e = JNull then Inr JUndefined else get_prop e ''message'') of
                Inl err \<Rightarrow> Inl err
              | Inr m \<Rightarrow>
                  Inr (js_or m
                    (JStr (js_lit ''Validation failed with status: '' @ show_nat (http_status resp))))))"

text \<open>Lines 381-392, the body of the \<open>try\<close> block, with the effects it has.\<close>

definition validate_body :: "world \<Rightarrow> js_string \<Rightarrow> (js_error + validation) \<times> effect list" where
  "validate_body w k =
     (let call = Fetch (js_lit ''https://api.openai.com/v1/models'') (js_lit ''Bearer '' @ k)
      in case fetch_result w (js_lit ''https://api.openai.com/v1/models'') (js_lit ''Bearer '' @ k) of
           Inl err \<Rightarrow> (Inl err, [call])
         | Inr resp \<Rightarrow>
             if http_ok resp
             then (Inr \<lparr>success = True, error_message = JUndefined\<rparr>,
                   [call, Console LevelLog ''[Mastra] API key validation successful'' []])
             else (case failure_message resp of
                     Inl err \<Rightarrow> (Inl err, [call])
                   | Inr m \<Rightarrow> (Inr \<lparr>success = False, error_message = m\<rparr>, [call])))"

text \<open>
  Lines 374-397. The result is what the returned promise settles with: \<open>Inl\<close> a
  rejection, \<open>Inr\<close> the resolved object.
\<close>

definition validateApiKey :: "world \<Rightarrow> jsval \<Rightarrow> (js_error + validation) \<times> effect list" where
  "validateApiKey w apiKey =
     (if bad_format apiKey
      then (Inr \<lparr>success = False,
                 error_message = JStr (js_lit ''Invalid OpenAI API key format.'')\<rparr>, [])
      else (case validate_body w (key_string apiKey) of
              (Inl err, es) \<Rightarrow>
                (Inr \<lparr>success = False,
                      error_message = JStr (js_lit ''A network error occurred during validation.'')\<rparr>,
                 es @ [Console LevelError ''[Mastra] Network error during key validation:'' [Err err]])
            | (Inr v, es) \<Rightarrow> (Inr v, es)))"

section \<open>createStreamingLLM\<close>

text \<open>
  The configuration object of line 403; a missing property is \<open>undefined\<close>, and
  \<open>cfg_rest\<close> holds the properties collected by \<open>...config\<close>.
\<close>

record llm_config =
  cfg_apiKey :: jsval
  cfg_model :: jsval
  cfg_temperature :: jsval
  cfg_maxTokens :: jsval
  cfg_resourceId :: jsval
  cfg_threadId :: jsval
  cfg_maxSteps :: jsval
  cfg_rest :: "(js_string \<times> jsval) list"

text \<open>A destructuring default: it replaces \<open>undefined\<close> only.\<close>

definition with_default :: "jsval \<Rightarrow> jsval \<Rightarrow> jsval" where
  "with_default d v = (if v = JUndefined then d else v)"

record streaming_llm =
  streamChat :: "world \<Rightarrow> jsval list \<Rightarrow> stream_response action"

text \<open>Lines 403-419.\<close>

definition createStreamingLLM :: "llm_config \<Rightarrow> streaming_llm" where
  "createStreamingLLM cfg =
     (let apiKey = cfg_apiKey cfg;
          model = cfg_model cfg;
          temperature = with_default (JNum (7 / 10)) (cfg_temperature cfg);
          maxTokens = with_default (JNum 2048) (cfg_maxTokens cfg);
          resourceId = cfg_resourceId cfg;
          threadId = cfg_threadId cfg;
          maxSteps = cfg_maxSteps cfg;
          config = cfg_rest cfg
      in \<lparr>streamChat = (\<lambda>w messages.
            seq (\<lambda>s. case teachingAssistantAgent s of
                        None \<Rightarrow>
                          (case initializeTeachingAssistant w apiKey s of
                             (Inl err, s') \<Rightarrow> (Inl err, s')
                           | (Inr a, s') \<Rightarrow> (Inr (), s'))
                      | Some a \<Rightarrow> (Inr (), s))
              (\<lambda>_. createMastraStream w messages
                      \<lparr>opt_resourceId = resourceId, opt_threadId = threadId,
                       opt_maxSteps = maxSteps\<rparr>))\<rparr>)"

section \<open>Notions used by the statements\<close>

text \<open>The tool calls of a generation result, step by step, in order.\<close>

definition step_calls :: "step \<Rightarrow> tool_call list" where
  "step_calls s = (case step_toolCalls s of None \<Rightarrow> [] | Some tcs \<Rightarrow> tcs)"

definition tool_calls_of :: "response \<Rightarrow> tool_call list" where
  "tool_calls_of r = (case resp_steps r of None \<Rightarrow> [] | Some ss \<Rightarrow> concat (map step_calls ss))"

text \<open>The text that line 313 appends for one tool call.\<close>

definition summary_line :: "platform \<Rightarrow> tool_call \<Rightarrow> js_string" where
  "summary_line p tc =
     js_lit ''\<newline>- '' @ name_text (tc_name tc) @ js_lit '': ''
       @ json_stringify_indent2 p (tc_result tc) @ js_lit ''\<newline>''"

text \<open>
  A tool call that has a name and a result that is not absent, in the words of the
  specification (not the test of line 312, which is \<open>valid_tool_call\<close>).
\<close>

definition has_name_and_result :: "tool_call \<Rightarrow> bool" where
  "has_name_and_result tc = (tc_name tc \<noteq> None \<and> tc_result tc \<noteq> JUndefined)"

text \<open>
  Object identities are handed out in order: a cached agent was created before
  the next one will be.
\<close>

definition wf_state :: "state \<Rightarrow> bool" where
  "wf_state s = (case teachingAssistantAgent s of None \<Rightarrow> True | Some a \<Rightarrow> agent_ref a < next_ref s)"

text \<open>The effects a call added to those already there.\<close>

definition new_effects :: "state \<Rightarrow> state \<Rightarrow> effect list" where
  "new_effects s s' = drop (length (effects s)) (effects s')"

text \<open>
  Everything that building an agent needs apart from the answer of
  \<open>getTools\<close>: the key passes line 49, and each step that is due (modules not
  yet loaded, client object not yet created, directory missing, memory, agent)
  goes through.
\<close>

definition rest_succeeds :: "world \<Rightarrow> jsval \<Rightarrow> state \<Rightarrow> bool" where
  "rest_succeeds w apiKey s =
     ((\<exists>preview. key_preview apiKey = Inr preview) \<and>
      (mastraModules s = None \<longrightarrow> import_result w = None) \<and>
      (mcpClient s = None \<longrightarrow> mcp_new_result w = None) \<and>
      (\<not> existsSync_result w \<longrightarrow> mkdirSync_result w = None) \<and>
      memory_new_result w = None \<and> agent_new_result w = None)"

text \<open>
  A step that leaves the cached agent, the recorded key and the identity counter
  alone, and only adds effects.
\<close>

definition keeps_agent :: "state \<Rightarrow> state \<Rightarrow> bool" where
  "keeps_agent s s' =
     (teachingAssistantAgent s' = teachingAssistantAgent s \<and>
      currentApiKey s' = currentApiKey s \<and>
      next_ref s' = next_ref s \<and>
      (\<exists>es. effects s' = effects s @ es))"

text \<open>
  Two states that differ at most in the effects recorded so far, and two actions
  that cannot tell such states apart: they return the same and stay in step.
\<close>

definition same_but_effects :: "state \<Rightarrow> state \<Rightarrow> bool" where
  "same_but_effects s t =
     (teachingAssistantAgent s = teachingAssistantAgent t \<and>
      mastraModules s = mastraModules t \<and>
      mcpClient s = mcpClient t \<and>
      currentApiKey s = currentApiKey t \<and>
      next_ref s = next_ref t)"

definition agree :: "'a action \<Rightarrow> 'a action \<Rightarrow> bool" where
  "agree m m' =
     (\<forall>s t. same_but_effects s t \<longrightarrow>
        fst (m s) = fst (m' t) \<and> same_but_effects (snd (m s)) (snd (m' t)))"

text \<open>Concrete surroundings for the instances: every call goes through.\<close>

definition plain_platform :: platform where
  "plain_platform =
     \<lparr>json_stringify = (\<lambda>v. js_lit ''{}''), json_stringify_indent2 = (\<lambda>v. js_lit ''{}''),
      text_encode = map ucast\<rparr>"

definition quiet_world :: world where
  "quiet_world =
     \<lparr>import_result = None, mcp_new_result = None, getTools_result = Inr (JObj []),
      tmpdir = js_lit ''/tmp'', path_join = (\<lambda>a b. a @ js_lit ''/'' @ b),
      existsSync_result = True, mkdirSync_result = None, memory_new_result = None,
      agent_new_result = None, date_now = 1700000000000,
      generate_result = (\<lambda>a ms go. Inr \<lparr>resp_text = Some (js_lit ''Hello''), resp_steps = None\<rparr>),
      fetch_result = (\<lambda>url auth. Inl (TypeError (js_lit ''fetch failed''))),
      builtins = plain_platform\<rparr>"

text \<open>
  What a generation that runs on the cached agent \<open>a\<close>, with the conversation
  \<open>ms\<close> and the recorded key \<open>key\<close>, may add to the effects: console output, and
  calls of \<open>generate\<close> on that agent with that key.
\<close>

fun on_cached :: "agent \<Rightarrow> jsval list \<Rightarrow> jsval \<Rightarrow> effect \<Rightarrow> bool" where
  "on_cached a ms key (Console l m args) = True"
| "on_cached a ms key (Generate ag ms' go) = (ag = a \<and> ms' = ms \<and> go_apiKey go = key)"
| "on_cached a ms key e = False"

text \<open>
  Two keys, the agents that two builds in a row create with them when every call
  goes through, and the state after the first of these builds.
\<close>

definition key_one :: jsval where
  "key_one = JStr (js_lit ''sk-one'')"

definition key_two :: jsval where
  "key_two = JStr (js_lit ''sk-two'')"

definition agent_one :: agent where
  "agent_one =
     \<lparr>agent_ref = 0, agent_model_key = key_one, agent_tools = JObj [],
      agent_memory = \<lparr>mem_url = js_lit ''file:/tmp/halo-mastra/teaching-assistant-memory.db'',
                       mem_embedder_key = key_one\<rparr>\<rparr>"

definition agent_two :: agent where
  "agent_two =
     \<lparr>agent_ref = 1, agent_model_key = key_two, agent_tools = JObj [],
      agent_memory = \<lparr>mem_url = js_lit ''file:/tmp/halo-mastra/teaching-assistant-memory.db'',
                       mem_embedder_key = key_two\<rparr>\<rparr>"

definition state_one :: state where
  "state_one =
     \<lparr>teachingAssistantAgent = Some agent_one, mastraModules = Some Modules,
      mcpClient = Some MCPClient, currentApiKey = key_one, next_ref = 1,
      effects =
        [Console LevelLog ''[Mastra] initializeTeachingAssistant called with API key: ''
           [Val (JStr (js_lit ''sk-one...''))],
         SetEnvApiKey key_one,
         ImportModules,
         Console LevelLog ''[Mastra] All modules loaded successfully'' [],
         NewMCPClient,
         GetTools,
         Console LevelLog ''[Mastra] Successfully connected to MCP course server'' [],
         ExistsSync (js_lit ''/tmp/halo-mastra''),
         Console LevelLog ''[Mastra] Using memory database at:''
           [Val (JStr (js_lit ''/tmp/halo-mastra/teaching-assistant-memory.db''))],
         NewMemory (agent_memory agent_one),
         Console LevelLog ''[Mastra] Creating agent with OpenAI model using API key: ''
           [Val (JStr (js_lit ''sk-one...''))],
         NewAgent agent_one,
         Console LevelLog ''[Mastra] Teaching Assistant agent initialized successfully'' []]\<rparr>"

text \<open>The same surroundings, with a tool server that cannot be started.\<close>

definition no_tools_world :: world where
  "no_tools_world = quiet_world\<lparr>getTools_result := Inl (Error (js_lit ''spawn npx ENOENT''))\<rparr>"

section \<open>Arithmetic of fixed-size slicing\<close>

lemma ceil_div_bounds:
  fixes c :: nat
  assumes "0 < c"
  shows "c * ((L + (c - 1)) div c) \<le> L + (c - 1)"
    and "L + (c - 1) < c * ((L + (c - 1)) div c) + c"
  using assms dividend_less_times_div[of c "L + (c - 1)"]
  by (simp_all add: add.commute)

lemma ceil_div_cover:
  fixes c :: nat
  assumes "0 < c"
  shows "L \<le> c * ((L + (c - 1)) div c)"
  using ceil_div_bounds(2)[OF assms, of L] assms by linarith

lemma ceil_div_pos:
  fixes c :: nat
  assumes "0 < c" "0 < L"
  shows "0 < (L + (c - 1)) div c"
  using assms by (simp add: div_greater_zero_iff)

lemma ceil_div_full:
  fixes c :: nat
  assumes "0 < c" "Suc k < (L + (c - 1)) div c"
  shows "c * k + c \<le> L"
proof -
  have "c * Suc (Suc k) \<le> c * ((L + (c - 1)) div c)"
    using assms(2) by (intro mult_le_mono2) simp
  also have "\<dots> \<le> L + (c - 1)" by (rule ceil_div_bounds(1)[OF assms(1)])
  finally show ?thesis using assms(1) by simp
qed

lemma ceil_div_lastk:
  fixes c :: nat
  assumes "0 < c" "Suc k = (L + (c - 1)) div c"
  shows "L \<le> c * k + c"
  using ceil_div_cover[OF assms(1), of L] assms(2)[symmetric] by simp

lemma ceil_div_step:
  fixes c :: nat
  assumes "0 < c" "i < L"
  shows "(L - i + (c - 1)) div c = Suc ((L - (i + c) + (c - 1)) div c)"
proof (cases "c \<le> L - i")
  case True
  then have "L - i + (c - 1) = (L - (i + c) + (c - 1)) + c" by simp
  then have "(L - i + (c - 1)) div c = ((L - (i + c) + (c - 1)) + c) div c" by (rule arg_cong)
  also have "\<dots> = Suc ((L - (i + c) + (c - 1)) div c)"
    using assms(1) by (simp only: div_add_self2)
  finally show ?thesis .
next
  case False
  then have z: "L - (i + c) = 0" by simp
  define m where "m = L - i - 1"
  have m: "L - i + (c - 1) = m + c" "m < c" using assms False by (simp_all add: m_def)
  have "(m + c) div c = Suc (m div c)" using assms(1) by (simp only: div_add_self2)
  then have "(m + c) div c = 1" using m(2) by simp
  then have "(L - i + (c - 1)) div c = 1" by (simp only: m(1))
  then show ?thesis using z assms(1) by simp
qed

lemma ceil_div_last:
  fixes c :: nat
  assumes "0 < c" "0 < L"
  shows "L - c * ((L + (c - 1)) div c - 1) = (if L mod c = 0 then c else L mod c)"
proof -
  define N where "N = (L + (c - 1)) div c"
  have Npos: "0 < N" unfolding N_def by (rule ceil_div_pos[OF assms])
  then obtain k where k: "N = Suc k" by (cases N) auto
  define d where "d = L - c * k"
  have up: "L \<le> c * k + c" using ceil_div_lastk[OF assms(1), of k L] k N_def by simp
  have "c * N \<le> L + (c - 1)" unfolding N_def by (rule ceil_div_bounds(1)[OF assms(1)])
  then have lo: "c * k < L" using k assms(1) by simp
  have L: "L = d + c * k" "0 < d" "d \<le> c" using lo up by (simp_all add: d_def)
  have "(if L mod c = 0 then c else L mod c) = d"
  proof (cases "d = c")
    case True
    then show ?thesis using L(1) assms(1) by simp
  next
    case False
    then have "d < c" using L(3) by simp
    then have "L mod c = d" using L(1) by simp
    then show ?thesis using L(2) by simp
  qed
  then show ?thesis using k d_def N_def by simp
qed

lemma ceil_real_50: "nat \<lceil>real L / 50\<rceil> = (L + 49) div 50"
  by linarith

section \<open>The text chunks\<close>

lemma split_loop_eq:
  "split_loop tx i chunks =
     chunks @ map (\<lambda>k. Chunk (js_slice tx (i + chunkSize * k) (i + chunkSize * k + chunkSize)))
                [0..<(length tx - i + (chunkSize - 1)) div chunkSize]"
proof (induction tx i chunks rule: split_loop.induct)
  case (1 tx i chunks)
  show ?case
  proof (cases "i < length tx")
    case False
    then show ?thesis by (subst split_loop.simps) (simp add: chunkSize_def)
  next
    case True
    let ?n = "(length tx - (i + chunkSize) + (chunkSize - 1)) div chunkSize"
    have n: "(length tx - i + (chunkSize - 1)) div chunkSize = Suc ?n"
      by (rule ceil_div_step[OF _ True]) (simp add: chunkSize_def)
    have "split_loop tx i chunks =
        split_loop tx (i + chunkSize) (chunks @ [Chunk (js_slice tx i (i + chunkSize))])"
      using True by (subst split_loop.simps) simp
    also have "\<dots> = (chunks @ [Chunk (js_slice tx i (i + chunkSize))]) @
        map (\<lambda>k. Chunk (js_slice tx (i + chunkSize + chunkSize * k)
                            (i + chunkSize + chunkSize * k + chunkSize))) [0..<?n]"
      using 1[OF True] by simp
    also have "\<dots> = chunks @
        map (\<lambda>k. Chunk (js_slice tx (i + chunkSize * k) (i + chunkSize * k + chunkSize)))
          [0..<Suc ?n]"
      unfolding upt_conv_Cons[OF zero_less_Suc] map_Suc_upt[symmetric]
      by (simp add: o_def ac_simps)
    finally show ?thesis unfolding n .
  qed
qed

lemma text_chunks_eq:
  assumes "resp_text r = Some tx"
  shows "text_chunks r =
    map (\<lambda>k. Chunk (js_slice tx (chunkSize * k) (chunkSize * k + chunkSize)))
      [0..<(length tx + (chunkSize - 1)) div chunkSize]"
proof (cases "tx = []")
  case True
  then show ?thesis using assms by (simp add: text_chunks_def chunkSize_def)
next
  case False
  then show ?thesis using assms by (simp add: text_chunks_def split_loop_eq)
qed

lemma concat_slices_upto:
  "concat (map (\<lambda>k. js_slice tx (c * k) (c * k + c)) [0..<n]) = take (c * n) tx"
proof (induction n)
  case 0
  show ?case by simp
next
  case (Suc n)
  have "js_slice tx (c * n) (c * n + c) = take c (drop (c * n) tx)"
    unfolding js_slice_def drop_take by simp
  then have "take (c * n) tx @ js_slice tx (c * n) (c * n + c) = take (c * n + c) tx"
    by (simp only: take_add)
  with Suc show ?case by (simp add: add.commute)
qed

lemma text_chunks_concat:
  assumes "resp_text r = Some tx"
  shows "concat (map content (text_chunks r)) = tx"
proof -
  have "length tx \<le> chunkSize * ((length tx + (chunkSize - 1)) div chunkSize)"
    by (rule ceil_div_cover) (simp add: chunkSize_def)
  then show ?thesis
    unfolding text_chunks_eq[OF assms] by (simp add: o_def concat_slices_upto)
qed

lemma text_chunks_count:
  assumes "resp_text r = Some tx"
  shows "length (text_chunks r) = (length tx + 49) div 50"
  unfolding text_chunks_eq[OF assms] chunkSize_def by simp

lemma text_chunks_nth:
  assumes "resp_text r = Some tx" and "k < length (text_chunks r)"
  shows "content (text_chunks r ! k) = js_slice tx (50 * k) (50 * k + 50)"
  using assms(2) unfolding text_chunks_eq[OF assms(1)] by (simp add: chunkSize_def)

lemma text_chunks_nth_length:
  assumes r: "resp_text r = Some tx" and k: "k < length (text_chunks r)"
  shows "length (content (text_chunks r ! k)) =
    (if Suc k = length (text_chunks r)
     then (if length tx mod 50 = 0 then 50 else length tx mod 50) else 50)"
proof -
  define N where "N = (length tx + (50 - 1)) div 50"
  have N: "length (text_chunks r) = N" using text_chunks_count[OF r] by (simp add: N_def)
  have kN: "k < N" using k N by simp
  have len: "length (content (text_chunks r ! k)) = min (length tx) (50 * k + 50) - 50 * k"
    unfolding text_chunks_nth[OF r k] by (simp add: js_slice_def)
  show ?thesis
  proof (cases "Suc k = N")
    case True
    have pos: "0 < length tx" using kN unfolding N_def by (cases tx) simp_all
    have up: "length tx \<le> 50 * k + 50"
      by (rule ceil_div_lastk[OF _ True[unfolded N_def]]) simp
    have "length tx - 50 * (N - 1) = (if length tx mod 50 = 0 then 50 else length tx mod 50)"
      unfolding N_def by (rule ceil_div_last[OF _ pos]) simp
    moreover have "N - 1 = k" using True[symmetric] by simp
    ultimately have "length tx - 50 * k = (if length tx mod 50 = 0 then 50 else length tx mod 50)"
      by (simp only:)
    moreover have "length (content (text_chunks r ! k)) = length tx - 50 * k"
      unfolding len using up by (simp only: min_absorb1)
    ultimately show ?thesis unfolding N using True by (simp only: if_True simp_thms)
  next
    case False
    then have "Suc k < N" using kN by simp
    then have "50 * k + 50 \<le> length tx" unfolding N_def by (rule ceil_div_full[rotated]) simp
    then have "length (content (text_chunks r ! k)) = 50"
      unfolding len by (simp only: min_absorb2 add_diff_cancel_left')
    then show ?thesis unfolding N using False by (simp only: if_False simp_thms)
  qed
qed

lemma text_chunks_nonempty:
  assumes "c \<in> set (text_chunks r)"
  shows "content c \<noteq> []"
proof (cases "resp_text r")
  case None
  then show ?thesis using assms by (simp add: text_chunks_def)
next
  case (Some tx)
  from assms obtain k where k: "k < length (text_chunks r)" "c = text_chunks r ! k"
    by (auto simp: in_set_conv_nth)
  have "0 < length (content (text_chunks r ! k))"
    unfolding text_chunks_nth_length[OF Some k(1)] by simp
  then show ?thesis using k(2) by simp
qed

text \<open>
  C4. The text of a generation result, of length \<open>L\<close>, is cut into chunks of 50
  code units, in order: the text chunks are the first chunks of the stream, the
  \<open>k\<close>-th holds the code units from \<open>50 k\<close> up to \<open>50 k + 50\<close>, together they
  spell the text, there are \<open>\<lceil>L / 50\<rceil>\<close> of them, and the last one has length
  \<open>L mod 50\<close>, or 50 when \<open>L\<close> is a positive multiple of 50.
\<close>

theorem text_is_cut_into_fifties:
  assumes "resp_text r = Some tx"
  shows "take (length (text_chunks r)) (response_chunks p r) = text_chunks r
    \<and> concat (map content (text_chunks r)) = tx
    \<and> length (text_chunks r) = nat \<lceil>real (length tx) / 50\<rceil>
    \<and> (\<forall>k < length (text_chunks r).
          content (text_chunks r ! k) = js_slice tx (50 * k) (50 * k + 50)
          \<and> length (content (text_chunks r ! k)) =
              (if Suc k = length (text_chunks r)
               then (if length tx mod 50 = 0 then 50 else length tx mod 50)
               else 50))"
proof (intro conjI allI impI)
  show "take (length (text_chunks r)) (response_chunks p r) = text_chunks r"
    by (simp add: response_chunks_def)
  show "concat (map content (text_chunks r)) = tx"
    by (rule text_chunks_concat[OF assms])
  show "length (text_chunks r) = nat \<lceil>real (length tx) / 50\<rceil>"
    unfolding ceil_real_50 by (rule text_chunks_count[OF assms])
next
  fix k assume "k < length (text_chunks r)"
  then show "content (text_chunks r ! k) = js_slice tx (50 * k) (50 * k + 50)"
    by (rule text_chunks_nth[OF assms])
next
  fix k assume "k < length (text_chunks r)"
  then show "length (content (text_chunks r ! k)) =
      (if Suc k = length (text_chunks r)
       then (if length tx mod 50 = 0 then 50 else length tx mod 50) else 50)"
    by (rule text_chunks_nth_length[OF assms])
qed

text \<open>An instance: a text of 120 code units gives chunks of 50, 50 and 20.\<close>

theorem text_is_cut_into_fifties_witness:
  "length (text_chunks \<lparr>resp_text = Some (replicate 120 97), resp_steps = None\<rparr>) = 3
   \<and> length (content (text_chunks \<lparr>resp_text = Some (replicate 120 97), resp_steps = None\<rparr> ! 0)) = 50
   \<and> length (content (text_chunks \<lparr>resp_text = Some (replicate 120 97), resp_steps = None\<rparr> ! 1)) = 50
   \<and> length (content (text_chunks \<lparr>resp_text = Some (replicate 120 97), resp_steps = None\<rparr> ! 2)) = 20"
proof -
  let ?r = "\<lparr>resp_text = Some (replicate 120 (97 :: code_unit)), resp_steps = None\<rparr>"
  have r: "resp_text ?r = Some (replicate 120 97)" by simp
  note t = text_is_cut_into_fifties[OF r, of plain_platform]
  from t have n: "length (text_chunks ?r) = 3" by simp
  from t have a: "\<forall>k < length (text_chunks ?r).
      length (content (text_chunks ?r ! k)) =
        (if Suc k = length (text_chunks ?r)
         then (if length (replicate 120 (97 :: code_unit)) mod 50 = 0 then 50
               else length (replicate 120 (97 :: code_unit)) mod 50)
         else 50)"
    by blast
  have "length (content (text_chunks ?r ! 0)) = 50" "length (content (text_chunks ?r ! 1)) = 50"
    "length (content (text_chunks ?r ! 2)) = 20"
    using a[rule_format, of 0] a[rule_format, of 1] a[rule_format, of 2] n by simp_all
  with n show ?thesis by simp
qed

section \<open>The tool summary\<close>

lemma tool_calls_loop_eq:
  "tool_calls_loop p tcs (acc, h) =
     (acc @ concat (map (summary_line p) (filter valid_tool_call tcs)),
      h \<or> filter valid_tool_call tcs \<noteq> [])"
  by (induction tcs arbitrary: acc h) (auto simp: summary_line_def)

lemma steps_loop_eq:
  "steps_loop p ss (acc, h) =
     (acc @ concat (map (summary_line p) (filter valid_tool_call (concat (map step_calls ss)))),
      h \<or> filter valid_tool_call (concat (map step_calls ss)) \<noteq> [])"
proof (induction ss arbitrary: acc h)
  case Nil
  show ?case by simp
next
  case (Cons s ss)
  show ?case
  proof (cases "step_toolCalls s")
    case None
    then show ?thesis using Cons by (simp add: step_calls_def)
  next
    case (Some tcs)
    then show ?thesis by (simp add: step_calls_def tool_calls_loop_eq Cons)
  qed
qed

lemma tool_chunks_eq:
  "tool_chunks p r =
     (if filter valid_tool_call (tool_calls_of r) = [] then []
      else [Chunk (tool_header @
              concat (map (summary_line p) (filter valid_tool_call (tool_calls_of r))))])"
  by (auto simp: tool_chunks_def tool_calls_of_def steps_loop_eq split: option.splits)

lemma tool_header_nonempty: "tool_header \<noteq> []"
  by (simp add: tool_header_def js_lit_def)

lemma tool_chunks_nonempty: "c \<in> set (tool_chunks p r) \<Longrightarrow> content c \<noteq> []"
  by (auto simp: tool_chunks_eq tool_header_nonempty split: if_splits)

lemma js_lit_simps:
  "js_lit a @ js_lit b = js_lit (a @ b)" "(js_lit a = []) = (a = [])"
  "take n (js_lit a) = js_lit (take n a)" "js_lit a @ js_lit b @ c = js_lit (a @ b) @ c"
  by (simp_all add: js_lit_def take_map)

text \<open>
  C3, as the code has it. The test of line 312 is truthiness: a tool call counts
  when its name is a non-empty string and its result is truthy, that is, none of
  \<open>undefined\<close>, \<open>null\<close>, \<open>false\<close>, \<open>0\<close> and the empty string. When at least one
  tool call of the result's steps counts, exactly one summary chunk follows the
  text chunks: the heading, then one line for each tool call that counts, in
  order; the others are left out. When none counts, there is no summary chunk.
\<close>

theorem tool_summary_chunk:
  "tool_chunks p r =
     (if \<exists>tc \<in> set (tool_calls_of r). valid_tool_call tc
      then [Chunk (tool_header @
              concat (map (summary_line p) (filter valid_tool_call (tool_calls_of r))))]
      else [])
   \<and> response_chunks p r = text_chunks r @ tool_chunks p r @ [Chunk []]
   \<and> valid_tool_call tc =
       ((\<exists>n. tc_name tc = Some n \<and> n \<noteq> []) \<and> truthy (tc_result tc))"
proof (intro conjI)
  show "tool_chunks p r =
     (if \<exists>tc \<in> set (tool_calls_of r). valid_tool_call tc
      then [Chunk (tool_header @
              concat (map (summary_line p) (filter valid_tool_call (tool_calls_of r))))]
      else [])"
    unfolding tool_chunks_eq by (auto simp: filter_empty_conv)
  show "response_chunks p r = text_chunks r @ tool_chunks p r @ [Chunk []]"
    by (simp add: response_chunks_def)
  show "valid_tool_call tc =
       ((\<exists>n. tc_name tc = Some n \<and> n \<noteq> []) \<and> truthy (tc_result tc))"
    by (cases "tc_result tc") (auto simp: valid_tool_call_def name_truthy_def split: option.splits)
qed

text \<open>
  An instance: of two tool calls, one with the result \<open>"Lesson 1"\<close> and one with
  the result \<open>0\<close>, only the first is listed.
\<close>

theorem tool_summary_chunk_witness:
  "tool_chunks plain_platform
     \<lparr>resp_text = Some (js_lit ''ok''),
      resp_steps = Some [\<lparr>step_toolCalls = Some
        [\<lparr>tc_name = Some (js_lit ''startCourse''), tc_args = JObj [],
          tc_result = JStr (js_lit ''Lesson 1'')\<rparr>,
         \<lparr>tc_name = Some (js_lit ''getProgress''), tc_args = JObj [],
          tc_result = JNum 0\<rparr>]\<rparr>]\<rparr> =
   [Chunk (js_lit ''\<newline>\<newline>**Learning Tools Used:**\<newline>\<newline>- startCourse: {}\<newline>'')]"
  using tool_summary_chunk[of plain_platform
     "\<lparr>resp_text = Some (js_lit ''ok''),
      resp_steps = Some [\<lparr>step_toolCalls = Some
        [\<lparr>tc_name = Some (js_lit ''startCourse''), tc_args = JObj [],
          tc_result = JStr (js_lit ''Lesson 1'')\<rparr>,
         \<lparr>tc_name = Some (js_lit ''getProgress''), tc_args = JObj [],
          tc_result = JNum 0\<rparr>]\<rparr>]\<rparr>"]
  by (simp add: tool_calls_of_def step_calls_def valid_tool_call_def name_truthy_def
        summary_line_def name_text_def tool_header_def plain_platform_def js_lit_simps)

text \<open>
  C3 as the specification words it fails: a tool call with the name
  \<open>getProgress\<close> and the result \<open>0\<close> has a name and a result that is not absent,
  and the stream has no summary chunk.
\<close>

theorem tool_summary_counterexample:
  "has_name_and_result
     \<lparr>tc_name = Some (js_lit ''getProgress''), tc_args = JObj [], tc_result = JNum 0\<rparr>
   \<and> tool_calls_of
       \<lparr>resp_text = Some (js_lit ''ok''),
        resp_steps = Some [\<lparr>step_toolCalls = Some
          [\<lparr>tc_name = Some (js_lit ''getProgress''), tc_args = JObj [],
            tc_result = JNum 0\<rparr>]\<rparr>]\<rparr> =
       [\<lparr>tc_name = Some (js_lit ''getProgress''), tc_args = JObj [], tc_result = JNum 0\<rparr>]
   \<and> tool_chunks plain_platform
       \<lparr>resp_text = Some (js_lit ''ok''),
        resp_steps = Some [\<lparr>step_toolCalls = Some
          [\<lparr>tc_name = Some (js_lit ''getProgress''), tc_args = JObj [],
            tc_result = JNum 0\<rparr>]\<rparr>]\<rparr> = []
   \<and> response_chunks plain_platform
       \<lparr>resp_text = Some (js_lit ''ok''),
        resp_steps = Some [\<lparr>step_toolCalls = Some
          [\<lparr>tc_name = Some (js_lit ''getProgress''), tc_args = JObj [],
            tc_result = JNum 0\<rparr>]\<rparr>]\<rparr> = [Chunk (js_lit ''ok''), Chunk []]"
  by (simp add: has_name_and_result_def tool_calls_of_def step_calls_def tool_chunks_def
        valid_tool_call_def response_chunks_def text_chunks_def tool_header_def
        split_loop.simps js_slice_def chunkSize_def js_lit_simps js_lit_def)

section \<open>The delivery\<close>

lemma sendChunk_eq:
  "sendChunk p chunks i =
     concat (map (\<lambda>c. [Enqueue (text_encode p (data_line p c)), SetTimeout 50]) (drop i chunks))
       @ [Enqueue (text_encode p done_line), Close]"
proof (induction p chunks i rule: sendChunk.induct)
  case (1 p chunks chunkIndex)
  show ?case
  proof (cases "chunkIndex < length chunks")
    case True
    have d: "drop chunkIndex chunks = chunks ! chunkIndex # drop (chunkIndex + 1) chunks"
      using True by (simp add: Cons_nth_drop_Suc)
    have ih: "sendChunk p chunks (Suc chunkIndex) =
        concat (map (\<lambda>c. [Enqueue (text_encode p (data_line p c)), SetTimeout 50])
          (drop (Suc chunkIndex) chunks)) @ [Enqueue (text_encode p done_line), Close]"
      using 1[OF True] by simp
    show ?thesis
      by (subst sendChunk.simps) (simp add: True ih d)
  next
    case False
    then show ?thesis by (subst sendChunk.simps) simp
  qed
qed

lemma empty_chunks_count:
  "length (filter (\<lambda>c. content c = []) (response_chunks p r)) = 1"
proof -
  have "filter (\<lambda>c. content c = []) (text_chunks r) = []"
    using text_chunks_nonempty by (auto simp: filter_empty_conv)
  moreover have "filter (\<lambda>c. content c = []) (tool_chunks p r) = []"
    using tool_chunks_nonempty by (auto simp: filter_empty_conv)
  ultimately show ?thesis by (simp add: response_chunks_def)
qed

text \<open>
  C5. The stream enqueues one \<open>data:\<close> line for each chunk, in order, arming a
  timer of 50 ms after each; the run that finds no chunk left enqueues the line
  \<open>data: [DONE]\<close> followed by two newlines, and closes the stream in the same
  step, so that nothing comes after the sentinel. The last chunk has empty
  content, and it is the only chunk that has.
\<close>

theorem stream_ends_with_sentinel:
  "body (createStreamFromMastraResponse p r) =
     concat (map (\<lambda>c. [Enqueue (text_encode p (data_line p c)), SetTimeout 50])
               (response_chunks p r))
       @ [Enqueue (text_encode p done_line), Close]
   \<and> last (response_chunks p r) = Chunk []
   \<and> length (filter (\<lambda>c. content c = []) (response_chunks p r)) = 1
   \<and> done_line = js_lit ''data: [DONE]'' @ [10, 10]"
proof (intro conjI)
  show "body (createStreamFromMastraResponse p r) =
     concat (map (\<lambda>c. [Enqueue (text_encode p (data_line p c)), SetTimeout 50])
               (response_chunks p r))
       @ [Enqueue (text_encode p done_line), Close]"
    by (simp add: createStreamFromMastraResponse_def sendChunk_eq)
  show "last (response_chunks p r) = Chunk []"
    by (simp add: response_chunks_def)
  show "length (filter (\<lambda>c. content c = []) (response_chunks p r)) = 1"
    by (rule empty_chunks_count)
  show "done_line = js_lit ''data: [DONE]'' @ [10, 10]"
    by (simp add: done_line_def js_lit_def)
qed

text \<open>An instance: the text \<open>Hi\<close> and no steps.\<close>

theorem stream_ends_with_sentinel_witness:
  "body (createStreamFromMastraResponse plain_platform
           \<lparr>resp_text = Some (js_lit ''Hi''), resp_steps = None\<rparr>) =
     [Enqueue (text_encode plain_platform (data_line plain_platform (Chunk (js_lit ''Hi'')))),
      SetTimeout 50,
      Enqueue (text_encode plain_platform (data_line plain_platform (Chunk []))),
      SetTimeout 50,
      Enqueue (text_encode plain_platform done_line),
      Close]"
  using stream_ends_with_sentinel[of plain_platform
          "\<lparr>resp_text = Some (js_lit ''Hi''), resp_steps = None\<rparr>"]
  by (simp add: response_chunks_def text_chunks_def tool_chunks_def split_loop.simps
        js_slice_def chunkSize_def js_lit_def)

section \<open>Sequencing and the steps of a build\<close>

lemma seq_Inr:
  assumes "seq m f s = (Inr b, s')"
  obtains x s1 where "m s = (Inr x, s1)" "f x s1 = (Inr b, s')"
  using assms by (auto simp: seq_def split: prod.splits sum.splits)

lemma seq_Inl:
  assumes "seq m f s = (Inl e, s')"
  obtains "m s = (Inl e, s')" | x s1 where "m s = (Inr x, s1)" "f x s1 = (Inl e, s')"
  using assms by (auto simp: seq_def split: prod.splits sum.splits)

lemma emit_keeps: "keeps_agent s (emit e s)"
  by (simp add: keeps_agent_def emit_def)

lemma do_emit_keeps: "do_emit e s = (r, s') \<Longrightarrow> keeps_agent s s'"
  by (auto simp: do_emit_def emit_keeps)

lemma loadMastraModules_keeps: "loadMastraModules w s = (r, s') \<Longrightarrow> keeps_agent s s'"
  by (auto simp: loadMastraModules_def keeps_agent_def emit_def split: option.splits)

lemma ensure_mcpClient_keeps: "ensure_mcpClient w s = (r, s') \<Longrightarrow> keeps_agent s s'"
  by (auto simp: ensure_mcpClient_def keeps_agent_def emit_def split: option.splits)

lemma get_courseTools_keeps: "get_courseTools w s = (r, s') \<Longrightarrow> keeps_agent s s'"
  by (auto simp: get_courseTools_def keeps_agent_def emit_def split: sum.splits)

lemma get_courseTools_value:
  "get_courseTools w s = (r, s') \<Longrightarrow>
     r = Inr (case getTools_result w of Inl e \<Rightarrow> JArr [] | Inr t \<Rightarrow> t)"
  by (auto simp: get_courseTools_def split: sum.splits)

lemma ensure_directory_keeps: "ensure_directory w s = (r, s') \<Longrightarrow> keeps_agent s s'"
  by (auto simp: ensure_directory_def seq_def do_emit_def external_def keeps_agent_def emit_def
        split: option.splits if_splits)

lemma new_Memory_keeps: "new_Memory w k s = (r, s') \<Longrightarrow> keeps_agent s s'"
  by (auto simp: new_Memory_def keeps_agent_def emit_def Let_def split: option.splits)

lemma new_Agent_Inr:
  assumes "new_Agent w k tools mem s = (Inr a, s')"
  shows "teachingAssistantAgent s' = Some a" "currentApiKey s' = currentApiKey s"
    "agent_ref a = next_ref s" "next_ref s' = Suc (next_ref s)" "agent_model_key a = k"
    "agent_tools a = tools" "effects s' = effects s @ [NewAgent a]"
  using assms by (auto simp: new_Agent_def emit_def Let_def split: option.splits)

lemma new_Agent_Inl: "new_Agent w k tools mem s = (Inl e, s') \<Longrightarrow> keeps_agent s s'"
  by (auto simp: new_Agent_def keeps_agent_def emit_def Let_def split: option.splits)

lemma get_courseTools_Inl:
  "get_courseTools w s = (r, s') \<Longrightarrow> getTools_result w = Inl e \<Longrightarrow>
     effects s' = effects s @ [GetTools, Console LevelWarn
       ''[Mastra] Failed to connect to MCP server, continuing without course tools:''
       [Val (JStr (message e))]]"
  by (auto simp: get_courseTools_def emit_def)

lemma build_agent_Inr:
  assumes "build_agent w k pv s = (Inr a, s')"
  shows "teachingAssistantAgent s' = Some a \<and> currentApiKey s' = k
    \<and> agent_ref a = next_ref s \<and> next_ref s' = Suc (next_ref s)
    \<and> agent_model_key a = k
    \<and> agent_tools a = (case getTools_result w of Inl e \<Rightarrow> JArr [] | Inr t \<Rightarrow> t)
    \<and> (\<exists>es. effects s' = effects s @ es \<and> NewAgent a \<in> set es)"
  using assms unfolding build_agent_def
  apply (elim seq_Inr)
  apply (frule do_emit_keeps)
  apply (frule loadMastraModules_keeps)
  apply (frule ensure_mcpClient_keeps)
  apply (frule get_courseTools_keeps)
  apply (frule get_courseTools_value)
  apply (frule ensure_directory_keeps)
  apply (frule new_Memory_keeps)
  apply (frule new_Agent_Inr(1))
  apply (frule new_Agent_Inr(2))
  apply (frule new_Agent_Inr(3))
  apply (frule new_Agent_Inr(4))
  apply (frule new_Agent_Inr(5))
  apply (frule new_Agent_Inr(6))
  apply (frule new_Agent_Inr(7))
  apply (auto simp: keeps_agent_def do_emit_def emit_def)
  done


lemma build_agent_Inr_warn:
  assumes "build_agent w k pv s = (Inr a, s')" and "getTools_result w = Inl e"
  shows "\<exists>es. effects s' = effects s @ es \<and>
     Console LevelWarn ''[Mastra] Failed to connect to MCP server, continuing without course tools:''
       [Val (JStr (message e))] \<in> set es"
  using assms unfolding build_agent_def
  apply (elim seq_Inr)
  apply (frule do_emit_keeps)
  apply (frule loadMastraModules_keeps)
  apply (frule ensure_mcpClient_keeps)
  apply (frule get_courseTools_Inl, assumption)
  apply (frule ensure_directory_keeps)
  apply (frule new_Memory_keeps)
  apply (frule new_Agent_Inr(7))
  apply (auto simp: keeps_agent_def do_emit_def emit_def)
  done

lemmas step_keeps =
  do_emit_keeps loadMastraModules_keeps ensure_mcpClient_keeps get_courseTools_keeps
  ensure_directory_keeps new_Memory_keeps new_Agent_Inl

lemma build_agent_Inl:
  assumes "build_agent w k pv s = (Inl e, s')"
  shows "keeps_agent s s'"
  using assms unfolding build_agent_def
  apply (elim seq_Inl)
  apply (auto dest!: step_keeps new_Agent_Inr(1,2,4,7) simp: keeps_agent_def do_emit_def emit_def)
  done

lemma try_build_agent_Inr:
  "try_build_agent w k pv s = (Inr a, s') \<Longrightarrow> build_agent w k pv s = (Inr a, s')"
  by (auto simp: try_build_agent_def split: prod.splits sum.splits)

lemma try_build_agent_Inl:
  "try_build_agent w k pv s = (Inl e, s') \<Longrightarrow>
     \<exists>s''. build_agent w k pv s = (Inl e, s'') \<and>
       s' = emit (Console LevelError ''[Mastra] Failed to initialize Teaching Assistant agent:'' [Err e]) s''"
  by (auto simp: try_build_agent_def split: prod.splits sum.splits)

lemma build_agent_succeeds:
  assumes "mastraModules s = None \<longrightarrow> import_result w = None"
    and "mcpClient s = None \<longrightarrow> mcp_new_result w = None"
    and "\<not> existsSync_result w \<longrightarrow> mkdirSync_result w = None"
    and "memory_new_result w = None" and "agent_new_result w = None"
  shows "\<exists>a s'. build_agent w k pv s = (Inr a, s')"
  using assms
  by (cases "mastraModules s"; cases "mcpClient s"; cases "existsSync_result w";
      simp add: build_agent_def seq_def do_emit_def emit_def external_def loadMastraModules_def
        ensure_mcpClient_def get_courseTools_def ensure_directory_def new_Memory_def
        new_Agent_def Let_def split: sum.splits)

section \<open>initializeTeachingAssistant\<close>

lemma initialize_unfold:
  assumes "key_preview k = Inr pv"
  defines "s2 \<equiv> \<lambda>s. reset_on_key_change k (emit (Console LevelLog
      ''[Mastra] initializeTeachingAssistant called with API key: '' [Val (JStr pv)]) s)"
  shows "initializeTeachingAssistant w k s =
        (case teachingAssistantAgent (s2 s) of
           Some a \<Rightarrow>
             if currentApiKey (s2 s) = k
             then (Inr a, emit (Console LevelLog ''[Mastra] Reusing existing agent with same API key'' []) (s2 s))
             else try_build_agent w k pv (s2 s)
         | None \<Rightarrow> try_build_agent w k pv (s2 s))"
  using assms(1) by (simp add: initializeTeachingAssistant_def s2_def Let_def cong: option.case_cong if_cong)

lemma initialize_Inr:
  assumes "initializeTeachingAssistant w k s = (Inr a, s')"
  shows "teachingAssistantAgent s' = Some a" "currentApiKey s' = k"
    "\<exists>pv. key_preview k = Inr pv"
proof -
  from assms obtain pv where pv: "key_preview k = Inr pv"
    by (cases "key_preview k") (auto simp: initializeTeachingAssistant_def)
  define s1 where "s1 = emit (Console LevelLog
      ''[Mastra] initializeTeachingAssistant called with API key: '' [Val (JStr pv)]) s"
  define s2 where "s2 = reset_on_key_change k s1"
  show "\<exists>pv. key_preview k = Inr pv" using pv by blast
  have "teachingAssistantAgent s' = Some a \<and> currentApiKey s' = k"
  proof (cases "\<exists>c. teachingAssistantAgent s2 = Some c \<and> currentApiKey s2 = k")
    case True
    then show ?thesis using assms pv
      by (auto simp: initializeTeachingAssistant_def s1_def s2_def emit_def Let_def)
  next
    case False
    then have "try_build_agent w k pv s2 = (Inr a, s')" using assms pv
      by (auto simp: initializeTeachingAssistant_def s1_def s2_def Let_def
          split: option.splits if_splits)
    then show ?thesis using build_agent_Inr[OF try_build_agent_Inr] by blast
  qed
  then show "teachingAssistantAgent s' = Some a" "currentApiKey s' = k" by simp_all
qed

lemma initialize_Inr_wf:
  assumes "wf_state s" "initializeTeachingAssistant w k s = (Inr a, s')"
  shows "wf_state s'"
proof -
  from assms(2) obtain pv where pv: "key_preview k = Inr pv"
    by (cases "key_preview k") (auto simp: initializeTeachingAssistant_def)
  define s2 where "s2 = reset_on_key_change k (emit (Console LevelLog
      ''[Mastra] initializeTeachingAssistant called with API key: '' [Val (JStr pv)]) s)"
  have wf2: "wf_state s2" using assms(1)
    by (auto simp: s2_def wf_state_def reset_on_key_change_def emit_def split: option.splits)
  have init: "initializeTeachingAssistant w k s =
        (case teachingAssistantAgent s2 of
           Some a \<Rightarrow>
             if currentApiKey s2 = k
             then (Inr a, emit (Console LevelLog ''[Mastra] Reusing existing agent with same API key'' []) s2)
             else try_build_agent w k pv s2
         | None \<Rightarrow> try_build_agent w k pv s2)"
    using pv by (simp add: initializeTeachingAssistant_def s2_def Let_def cong: option.case_cong if_cong)
  show ?thesis
  proof (cases "\<exists>c. teachingAssistantAgent s2 = Some c \<and> currentApiKey s2 = k")
    case True
    then show ?thesis using assms(2) wf2 unfolding init
      by (auto simp: wf_state_def emit_def)
  next
    case False
    then have "try_build_agent w k pv s2 = (Inr a, s')" using assms(2) unfolding init
      by (auto split: option.splits if_splits)
    from build_agent_Inr[OF try_build_agent_Inr[OF this]]
    show ?thesis by (simp add: wf_state_def)
  qed
qed

lemma reset_keeps_modules:
  "mastraModules (reset_on_key_change k s) = mastraModules s"
  "mcpClient (reset_on_key_change k s) = mcpClient s"
  "\<exists>es. effects (reset_on_key_change k s) = effects s @ es"
  by (simp_all add: reset_on_key_change_def emit_def)

section \<open>A failing tool server changes nothing but the tools\<close>

lemma same_but_effects_refl: "same_but_effects s s"
  by (simp add: same_but_effects_def)

lemma same_but_effects_emit: "same_but_effects s t \<Longrightarrow> same_but_effects (emit e s) (emit e' t)"
  by (simp add: same_but_effects_def emit_def)

lemma agree_seq:
  assumes "agree m m'" and "\<And>x. agree (f x) (f' x)"
  shows "agree (seq m f) (seq m' f')"
  unfolding agree_def
proof (intro allI impI)
  fix s t assume st: "same_but_effects s t"
  from assms(1) st have 1: "fst (m s) = fst (m' t)" "same_but_effects (snd (m s)) (snd (m' t))"
    by (auto simp: agree_def)
  show "fst (seq m f s) = fst (seq m' f' t) \<and> same_but_effects (snd (seq m f s)) (snd (seq m' f' t))"
  proof (cases "fst (m s)")
    case (Inl e)
    then show ?thesis using 1
      by (cases "m s"; cases "m' t") (auto simp: seq_def)
  next
    case (Inr x)
    then show ?thesis using 1 assms(2)[of x]
      by (cases "m s"; cases "m' t") (auto simp: seq_def agree_def)
  qed
qed

lemma agree_do_emit: "agree (do_emit e) (do_emit e')"
  by (simp add: agree_def do_emit_def same_but_effects_emit)

lemma agree_external: "agree (external e r) (external e r)"
  by (auto simp: agree_def external_def same_but_effects_emit split: option.splits)

lemma agree_loadMastraModules: "agree (loadMastraModules w) (loadMastraModules w)"
  by (auto simp: agree_def loadMastraModules_def same_but_effects_def emit_def split: option.splits)

lemma agree_ensure_mcpClient: "agree (ensure_mcpClient w) (ensure_mcpClient w)"
  by (auto simp: agree_def ensure_mcpClient_def same_but_effects_def emit_def split: option.splits)

lemma agree_get_courseTools:
  assumes "getTools_result w = Inl e" and "getTools_result w' = Inr (JArr [])"
  shows "agree (get_courseTools w) (get_courseTools w')"
  using assms by (auto simp: agree_def get_courseTools_def same_but_effects_def emit_def)

lemma agree_pure: "agree (\<lambda>s. (r, s)) (\<lambda>s. (r, s))"
  by (simp add: agree_def)

lemma agree_ensure_directory: "agree (ensure_directory w) (ensure_directory w)"
  unfolding ensure_directory_def
  by (intro agree_seq agree_do_emit) (auto intro: agree_external agree_pure)

lemma agree_new_Memory: "agree (new_Memory w k) (new_Memory w k)"
  by (auto simp: agree_def new_Memory_def same_but_effects_def emit_def Let_def split: option.splits)

lemma agree_new_Agent: "agree (new_Agent w k tools mem) (new_Agent w k tools mem)"
  by (auto simp: agree_def new_Agent_def same_but_effects_def emit_def Let_def split: option.splits)

lemma agree_set_key:
  "agree (\<lambda>s. (Inr (), s\<lparr>currentApiKey := k\<rparr>)) (\<lambda>s. (Inr (), s\<lparr>currentApiKey := k\<rparr>))"
  by (simp add: agree_def same_but_effects_def)

lemma without_tools_steps:
  fixes w :: world
  defines "w' \<equiv> w\<lparr>getTools_result := Inr (JArr [])\<rparr>"
  shows "loadMastraModules w' = loadMastraModules w" "ensure_mcpClient w' = ensure_mcpClient w"
    "ensure_directory w' = ensure_directory w" "new_Memory w' = new_Memory w"
    "new_Agent w' = new_Agent w"
  by (auto simp: w'_def fun_eq_iff loadMastraModules_def ensure_mcpClient_def ensure_directory_def
      userDataPath_def memoryDbPath_def new_Memory_def new_Agent_def
      cong: option.case_cong)

lemma agree_build_agent:
  assumes "getTools_result w = Inl e"
  shows "agree (build_agent w k pv) (build_agent (w\<lparr>getTools_result := Inr (JArr [])\<rparr>) k pv)"
  unfolding build_agent_def without_tools_steps
  by (intro agree_seq agree_do_emit agree_loadMastraModules agree_ensure_mcpClient
        agree_ensure_directory agree_new_Memory agree_new_Agent agree_set_key agree_pure
        agree_get_courseTools[OF assms]) simp

lemma agree_try_build_agent:
  assumes "getTools_result w = Inl e"
  shows "agree (try_build_agent w k pv) (try_build_agent (w\<lparr>getTools_result := Inr (JArr [])\<rparr>) k pv)"
  unfolding agree_def
proof (intro allI impI)
  fix s t assume "same_but_effects s t"
  with agree_build_agent[OF assms, of k pv]
  have "fst (build_agent w k pv s) = fst (build_agent (w\<lparr>getTools_result := Inr (JArr [])\<rparr>) k pv t)"
    "same_but_effects (snd (build_agent w k pv s)) (snd (build_agent (w\<lparr>getTools_result := Inr (JArr [])\<rparr>) k pv t))"
    by (auto simp: agree_def)
  then show "fst (try_build_agent w k pv s) = fst (try_build_agent (w\<lparr>getTools_result := Inr (JArr [])\<rparr>) k pv t) \<and>
      same_but_effects (snd (try_build_agent w k pv s)) (snd (try_build_agent (w\<lparr>getTools_result := Inr (JArr [])\<rparr>) k pv t))"
    by (cases "build_agent w k pv s"; cases "build_agent (w\<lparr>getTools_result := Inr (JArr [])\<rparr>) k pv t")
       (auto simp: try_build_agent_def same_but_effects_emit split: sum.splits)
qed

lemma agree_initialize:
  assumes "getTools_result w = Inl e"
  shows "agree (initializeTeachingAssistant w k)
           (initializeTeachingAssistant (w\<lparr>getTools_result := Inr (JArr [])\<rparr>) k)"
  unfolding agree_def
proof (intro allI impI)
  fix s t assume st: "same_but_effects s t"
  let ?w' = "w\<lparr>getTools_result := Inr (JArr [])\<rparr>"
  show "fst (initializeTeachingAssistant w k s) = fst (initializeTeachingAssistant ?w' k t) \<and>
      same_but_effects (snd (initializeTeachingAssistant w k s)) (snd (initializeTeachingAssistant ?w' k t))"
  proof (cases "key_preview k")
    case (Inl err)
    then show ?thesis using st by (simp add: initializeTeachingAssistant_def)
  next
    case (Inr pv)
    define s2 where "s2 = reset_on_key_change k (emit (Console LevelLog
      ''[Mastra] initializeTeachingAssistant called with API key: '' [Val (JStr pv)]) s)"
    define t2 where "t2 = reset_on_key_change k (emit (Console LevelLog
      ''[Mastra] initializeTeachingAssistant called with API key: '' [Val (JStr pv)]) t)"
    have 2: "same_but_effects s2 t2"
      using st by (auto simp: s2_def t2_def reset_on_key_change_def same_but_effects_def emit_def)
    from agree_try_build_agent[OF assms, of k pv] 2
    have b: "fst (try_build_agent w k pv s2) = fst (try_build_agent ?w' k pv t2)"
      "same_but_effects (snd (try_build_agent w k pv s2)) (snd (try_build_agent ?w' k pv t2))"
      by (auto simp: agree_def)
    have init_s: "initializeTeachingAssistant w k s =
        (case teachingAssistantAgent s2 of
           Some a \<Rightarrow>
             if currentApiKey s2 = k
             then (Inr a, emit (Console LevelLog ''[Mastra] Reusing existing agent with same API key'' []) s2)
             else try_build_agent w k pv s2
         | None \<Rightarrow> try_build_agent w k pv s2)"
      using Inr by (simp add: initializeTeachingAssistant_def s2_def Let_def cong: option.case_cong if_cong)
    have init_t: "initializeTeachingAssistant ?w' k t =
        (case teachingAssistantAgent t2 of
           Some a \<Rightarrow>
             if currentApiKey t2 = k
             then (Inr a, emit (Console LevelLog ''[Mastra] Reusing existing agent with same API key'' []) t2)
             else try_build_agent ?w' k pv t2
         | None \<Rightarrow> try_build_agent ?w' k pv t2)"
      using Inr by (simp add: initializeTeachingAssistant_def t2_def Let_def cong: option.case_cong if_cong)
    have eq: "teachingAssistantAgent t2 = teachingAssistantAgent s2" "currentApiKey t2 = currentApiKey s2"
      using 2 by (simp_all add: same_but_effects_def)
    show ?thesis
    proof (cases "\<exists>a. teachingAssistantAgent s2 = Some a \<and> currentApiKey s2 = k")
      case True
      then show ?thesis unfolding init_s init_t eq using same_but_effects_emit[OF 2] by auto
    next
      case False
      then have "initializeTeachingAssistant w k s = try_build_agent w k pv s2"
        "initializeTeachingAssistant ?w' k t = try_build_agent ?w' k pv t2"
        unfolding init_s init_t eq by (auto split: option.splits)
      then show ?thesis using b by simp
    qed
  qed
qed

section \<open>Concrete runs\<close>

lemmas run_defs = initializeTeachingAssistant_def key_preview_def reset_on_key_change_def
  try_build_agent_def build_agent_def seq_def do_emit_def emit_def external_def
  loadMastraModules_def ensure_mcpClient_def get_courseTools_def ensure_directory_def
  new_Memory_def new_Agent_def userDataPath_def memoryDbPath_def Let_def
  quiet_world_def initial_state_def key_one_def key_two_def agent_one_def agent_two_def

lemma run_one:
  "initializeTeachingAssistant quiet_world key_one initial_state = (Inr agent_one, state_one)"
  by (simp add: run_defs state_one_def js_lit_simps)


lemma run_two:
  "initializeTeachingAssistant quiet_world key_two state_one =
     (Inr agent_two, snd (initializeTeachingAssistant quiet_world key_two state_one))"
proof -
  have "fst (initializeTeachingAssistant quiet_world key_two state_one) = Inr agent_two"
    by (simp add: state_one_def run_defs js_lit_simps js_lit_def)
  then show ?thesis by (simp add: prod_eq_iff)
qed

section \<open>The identity counter\<close>

lemma initial_state_wf: "wf_state initial_state"
  by (simp add: wf_state_def initial_state_def)

lemma initialize_wf:
  assumes "wf_state s" "initializeTeachingAssistant w k s = (r, s')"
  shows "wf_state s'"
proof (cases r)
  case (Inr a)
  then show ?thesis using initialize_Inr_wf[OF assms(1)] assms(2) by simp
next
  case (Inl err)
  show ?thesis
  proof (cases "key_preview k")
    case (Inl e)
    then show ?thesis using assms by (simp add: initializeTeachingAssistant_def)
  next
    case (Inr pv)
    define s2 where "s2 = reset_on_key_change k (emit (Console LevelLog
      ''[Mastra] initializeTeachingAssistant called with API key: '' [Val (JStr pv)]) s)"
    have wf2: "wf_state s2" using assms(1)
      by (auto simp: s2_def wf_state_def reset_on_key_change_def emit_def split: option.splits)
    have "try_build_agent w k pv s2 = (Inl err, s')"
      using assms(2) \<open>r = Inl err\<close> unfolding initialize_unfold[OF Inr] s2_def[symmetric]
      by (auto split: option.splits if_splits)
    from try_build_agent_Inl[OF this] obtain s3 where
      3: "build_agent w k pv s2 = (Inl err, s3)"
        "s' = emit (Console LevelError
           ''[Mastra] Failed to initialize Teaching Assistant agent:'' [Err err]) s3"
      by blast
    from build_agent_Inl[OF 3(1)] wf2 show ?thesis
      by (auto simp: 3(2) keeps_agent_def wf_state_def emit_def split: option.splits)
  qed
qed

section \<open>The claims about the agent's life cycle\<close>

text \<open>
  C1. After \<open>initializeTeachingAssistant(c)\<close> has returned an agent, a second
  call with the same key, whatever the surroundings are by then, returns that
  same agent and leaves the state as it was but for two lines on the console:
  no module is loaded, no tool requested, no memory and no agent constructed.
\<close>

theorem initialize_same_key_reuses:
  assumes "initializeTeachingAssistant w c s = (Inr h, s1)"
  shows "\<exists>preview. key_preview c = Inr preview \<and>
    initializeTeachingAssistant w' c s1 =
      (Inr h, s1\<lparr>effects := effects s1 @
         [Console LevelLog ''[Mastra] initializeTeachingAssistant called with API key: ''
            [Val (JStr preview)],
          Console LevelLog ''[Mastra] Reusing existing agent with same API key'' []]\<rparr>)"
proof -
  from initialize_Inr[OF assms] obtain pv where
    cached: "teachingAssistantAgent s1 = Some h" "currentApiKey s1 = c" and pv: "key_preview c = Inr pv"
    by blast
  have "initializeTeachingAssistant w' c s1 =
      (Inr h, s1\<lparr>effects := effects s1 @
         [Console LevelLog ''[Mastra] initializeTeachingAssistant called with API key: ''
            [Val (JStr pv)],
          Console LevelLog ''[Mastra] Reusing existing agent with same API key'' []]\<rparr>)"
    using cached pv
    by (simp add: initializeTeachingAssistant_def reset_on_key_change_def emit_def Let_def)
  with pv show ?thesis by blast
qed

text \<open>An instance: the key \<open>sk-one\<close>, twice, from the initial state.\<close>

theorem initialize_same_key_reuses_witness:
  "initializeTeachingAssistant quiet_world key_one initial_state = (Inr agent_one, state_one)
   \<and> fst (initializeTeachingAssistant quiet_world key_one state_one) = Inr agent_one
   \<and> teachingAssistantAgent (snd (initializeTeachingAssistant quiet_world key_one state_one))
       = teachingAssistantAgent state_one
   \<and> next_ref (snd (initializeTeachingAssistant quiet_world key_one state_one))
       = next_ref state_one"
  using initialize_same_key_reuses[OF run_one, of quiet_world] run_one by auto

text \<open>
  C2. After a successful call with the key \<open>a\<close>, a successful call with another
  key \<open>b\<close> drops the cached agent (lines 52-56, logged) and constructs a new one:
  the agent returned is a new object, bound to \<open>b\<close>, it is the one cached
  afterwards, and the recorded key is \<open>b\<close>.
\<close>

theorem initialize_new_key_rebuilds:
  assumes wf: "wf_state s0" and ne: "a \<noteq> b"
    and first: "initializeTeachingAssistant w1 a s0 = (Inr h1, s1)"
    and second: "initializeTeachingAssistant w2 b s1 = (Inr h2, s2)"
  shows "h2 \<noteq> h1 \<and> agent_ref h1 < agent_ref h2
    \<and> teachingAssistantAgent s2 = Some h2 \<and> currentApiKey s2 = b
    \<and> agent_model_key h2 = b
    \<and> Console LevelLog ''[Mastra] API key changed, reinitializing Teaching Assistant agent'' []
         \<in> set (new_effects s1 s2)
    \<and> NewAgent h2 \<in> set (new_effects s1 s2)"
proof -
  from initialize_Inr[OF first] have cached: "teachingAssistantAgent s1 = Some h1" "currentApiKey s1 = a"
    by blast+
  have wf1: "wf_state s1" by (rule initialize_Inr_wf[OF wf first])
  then have ref1: "agent_ref h1 < next_ref s1" using cached by (simp add: wf_state_def)
  from initialize_Inr(3)[OF second] obtain pv where pv: "key_preview b = Inr pv" by blast
  define s' where "s' = reset_on_key_change b (emit (Console LevelLog
      ''[Mastra] initializeTeachingAssistant called with API key: '' [Val (JStr pv)]) s1)"
  have s': "teachingAssistantAgent s' = None" "next_ref s' = next_ref s1"
    "effects s' = effects s1 @
       [Console LevelLog ''[Mastra] initializeTeachingAssistant called with API key: '' [Val (JStr pv)],
        Console LevelLog ''[Mastra] API key changed, reinitializing Teaching Assistant agent'' []]"
    using cached ne by (simp_all add: s'_def reset_on_key_change_def emit_def)
  have "try_build_agent w2 b pv s' = (Inr h2, s2)"
    using second s'(1) unfolding initialize_unfold[OF pv] s'_def[symmetric] by simp
  from build_agent_Inr[OF try_build_agent_Inr[OF this]] obtain es where
    b: "teachingAssistantAgent s2 = Some h2" "currentApiKey s2 = b" "agent_ref h2 = next_ref s'"
      "agent_model_key h2 = b" "effects s2 = effects s' @ es" "NewAgent h2 \<in> set es"
    by blast
  have "agent_ref h1 < agent_ref h2" using ref1 b(3) s'(2) by simp
  moreover from this have "h2 \<noteq> h1" by auto
  moreover have "new_effects s1 s2 =
      [Console LevelLog ''[Mastra] initializeTeachingAssistant called with API key: '' [Val (JStr pv)],
       Console LevelLog ''[Mastra] API key changed, reinitializing Teaching Assistant agent'' []] @ es"
    by (simp add: new_effects_def b(5) s'(3))
  ultimately show ?thesis using b by simp
qed

text \<open>An instance: the key \<open>sk-one\<close>, then the key \<open>sk-two\<close>.\<close>

theorem initialize_new_key_rebuilds_witness:
  "wf_state initial_state \<and> key_one \<noteq> key_two
   \<and> initializeTeachingAssistant quiet_world key_one initial_state = (Inr agent_one, state_one)
   \<and> fst (initializeTeachingAssistant quiet_world key_two state_one) = Inr agent_two
   \<and> agent_two \<noteq> agent_one
   \<and> currentApiKey (snd (initializeTeachingAssistant quiet_world key_two state_one)) = key_two"
proof -
  have ne: "key_one \<noteq> key_two" by (simp add: key_one_def key_two_def js_lit_def)
  have f: "fst (initializeTeachingAssistant quiet_world key_two state_one) = Inr agent_two"
    using run_two by (metis fst_conv)
  from initialize_new_key_rebuilds[OF initial_state_wf ne run_one run_two]
  have "agent_two \<noteq> agent_one"
    "currentApiKey (snd (initializeTeachingAssistant quiet_world key_two state_one)) = key_two"
    by blast+
  with initial_state_wf ne run_one f show ?thesis by blast
qed

text \<open>
  C6. When \<open>mcpClient.getTools()\<close> throws, \<open>initializeTeachingAssistant\<close>
  returns what it would have returned had the call answered with an empty array:
  the error is not the caller's. And when a build is due and everything else goes
  through, the call succeeds: the agent has the empty array for tools, it is
  cached with the key, and the console has the warning with the error's message.
\<close>

theorem tools_failure_tolerated:
  assumes "getTools_result w = Inl e"
  shows "fst (initializeTeachingAssistant w k s) =
      fst (initializeTeachingAssistant (w\<lparr>getTools_result := Inr (JArr [])\<rparr>) k s)
    \<and> ((teachingAssistantAgent s = None \<or> currentApiKey s \<noteq> k) \<and> rest_succeeds w k s \<longrightarrow>
         (\<exists>a s'. initializeTeachingAssistant w k s = (Inr a, s')
            \<and> agent_tools a = JArr []
            \<and> teachingAssistantAgent s' = Some a \<and> currentApiKey s' = k
            \<and> Console LevelWarn
                 ''[Mastra] Failed to connect to MCP server, continuing without course tools:''
                 [Val (JStr (message e))] \<in> set (new_effects s s')))"
proof (intro conjI impI)
  show "fst (initializeTeachingAssistant w k s) =
      fst (initializeTeachingAssistant (w\<lparr>getTools_result := Inr (JArr [])\<rparr>) k s)"
    using agree_initialize[OF assms, of k] same_but_effects_refl[of s] by (simp add: agree_def)
next
  assume h: "(teachingAssistantAgent s = None \<or> currentApiKey s \<noteq> k) \<and> rest_succeeds w k s"
  then obtain pv where pv: "key_preview k = Inr pv" by (auto simp: rest_succeeds_def)
  define s1 where "s1 = emit (Console LevelLog
      ''[Mastra] initializeTeachingAssistant called with API key: '' [Val (JStr pv)]) s"
  define s2 where "s2 = reset_on_key_change k s1"
  have none: "teachingAssistantAgent s2 = None"
    using h by (auto simp: s2_def s1_def reset_on_key_change_def emit_def)
  have same: "mastraModules s2 = mastraModules s" "mcpClient s2 = mcpClient s"
    by (simp_all add: s2_def s1_def reset_keeps_modules emit_def)
  obtain es2 where es2: "effects s2 = effects s @ es2"
    using reset_keeps_modules(3)[of k s1] by (auto simp: s2_def s1_def emit_def)
  have "\<exists>a s'. build_agent w k pv s2 = (Inr a, s')"
    using h by (intro build_agent_succeeds) (simp_all add: rest_succeeds_def same)
  then obtain a s' where b: "build_agent w k pv s2 = (Inr a, s')" by blast
  have init: "initializeTeachingAssistant w k s = (Inr a, s')"
    unfolding initialize_unfold[OF pv] s1_def[symmetric] s2_def[symmetric]
    using none b by (simp add: try_build_agent_def)
  from build_agent_Inr_warn[OF b assms] obtain es where
    es: "effects s' = effects s2 @ es"
      "Console LevelWarn ''[Mastra] Failed to connect to MCP server, continuing without course tools:''
         [Val (JStr (message e))] \<in> set es"
    by blast
  have "Console LevelWarn ''[Mastra] Failed to connect to MCP server, continuing without course tools:''
         [Val (JStr (message e))] \<in> set (new_effects s s')"
    using es es2 by (simp add: new_effects_def)
  then show "\<exists>a s'. initializeTeachingAssistant w k s = (Inr a, s')
            \<and> agent_tools a = JArr []
            \<and> teachingAssistantAgent s' = Some a \<and> currentApiKey s' = k
            \<and> Console LevelWarn
                 ''[Mastra] Failed to connect to MCP server, continuing without course tools:''
                 [Val (JStr (message e))] \<in> set (new_effects s s')"
    using init build_agent_Inr[OF b] assms by auto
qed

text \<open>An instance: the first build, with a tool server that cannot be started.\<close>

theorem tools_failure_tolerated_witness:
  "getTools_result no_tools_world = Inl (Error (js_lit ''spawn npx ENOENT''))
   \<and> teachingAssistantAgent initial_state = None
   \<and> rest_succeeds no_tools_world key_one initial_state
   \<and> (\<exists>a s'. initializeTeachingAssistant no_tools_world key_one initial_state = (Inr a, s')
          \<and> agent_tools a = JArr []
          \<and> teachingAssistantAgent s' = Some a
          \<and> Console LevelWarn
               ''[Mastra] Failed to connect to MCP server, continuing without course tools:''
               [Val (JStr (js_lit ''spawn npx ENOENT''))] \<in> set (new_effects initial_state s'))"
proof -
  have g: "getTools_result no_tools_world = Inl (Error (js_lit ''spawn npx ENOENT''))"
    by (simp add: no_tools_world_def)
  have n: "teachingAssistantAgent initial_state = None" by (simp add: initial_state_def)
  have r: "rest_succeeds no_tools_world key_one initial_state"
    by (simp add: rest_succeeds_def no_tools_world_def quiet_world_def key_preview_def
          key_one_def js_lit_simps)
  from tools_failure_tolerated[OF g, of key_one initial_state] n r g show ?thesis by auto
qed

section \<open>The claims about generation\<close>

text \<open>
  C7. With no agent cached, \<open>createMastraStream\<close> throws the error
  \<open>Teaching Assistant agent not initialized\<close> (line 222): the \<open>catch\<close> logs it and
  throws it again, \<open>generate\<close> is not called and no stream is made.
\<close>

theorem stream_before_initialization_fails:
  assumes "teachingAssistantAgent s = None"
  shows "createMastraStream w messages options s =
    (Inl (Error (js_lit ''Teaching Assistant agent not initialized'')),
     s\<lparr>effects := effects s @
        [Console LevelError ''[Mastra] Error in createMastraStream:''
           [Err (Error (js_lit ''Teaching Assistant agent not initialized''))]]\<rparr>)"
  using assms by (simp add: createMastraStream_def stream_body_def throw_def emit_def)

text \<open>An instance: the initial state.\<close>

theorem stream_before_initialization_fails_witness:
  "teachingAssistantAgent initial_state = None
   \<and> fst (createMastraStream quiet_world [JObj [(js_lit ''content'', JStr (js_lit ''hello''))]]
            no_options initial_state) =
       Inl (Error (js_lit ''Teaching Assistant agent not initialized''))"
  using stream_before_initialization_fails[of initial_state quiet_world
          "[JObj [(js_lit ''content'', JStr (js_lit ''hello''))]]" no_options]
  by (simp add: initial_state_def)

text \<open>
  C8. A key that is falsy (the empty string among them), not a string, or a
  string that does not start with \<open>sk-\<close> is refused with the format message, and
  nothing is fetched. When \<open>fetch\<close> throws for a well-formed key, the result is
  the failure with the message \<open>A network error occurred during validation.\<close>.
  In every case the promise resolves: \<open>validateApiKey\<close> does not throw.
\<close>

theorem validateApiKey_failures:
  "(\<not> truthy apiKey \<or> (\<forall>k. apiKey \<noteq> JStr k)
      \<or> (\<exists>k. apiKey = JStr k \<and> \<not> starts_with k (js_lit ''sk-'')) \<longrightarrow>
      validateApiKey w apiKey =
        (Inr \<lparr>success = False,
              error_message = JStr (js_lit ''Invalid OpenAI API key format.'')\<rparr>, []))
   \<and> (\<forall>k err. apiKey = JStr k \<and> starts_with k (js_lit ''sk-'')
         \<and> fetch_result w (js_lit ''https://api.openai.com/v1/models'') (js_lit ''Bearer '' @ k) = Inl err \<longrightarrow>
      validateApiKey w apiKey =
        (Inr \<lparr>success = False,
              error_message = JStr (js_lit ''A network error occurred during validation.'')\<rparr>,
         [Fetch (js_lit ''https://api.openai.com/v1/models'') (js_lit ''Bearer '' @ k),
          Console LevelError ''[Mastra] Network error during key validation:'' [Err err]]))
   \<and> (\<exists>v es. validateApiKey w apiKey = (Inr v, es))"
proof (intro conjI impI allI)
  assume "\<not> truthy apiKey \<or> (\<forall>k. apiKey \<noteq> JStr k)
      \<or> (\<exists>k. apiKey = JStr k \<and> \<not> starts_with k (js_lit ''sk-''))"
  then have "bad_format apiKey"
    by (cases apiKey) (auto simp: bad_format_def)
  then show "validateApiKey w apiKey =
        (Inr \<lparr>success = False,
              error_message = JStr (js_lit ''Invalid OpenAI API key format.'')\<rparr>, [])"
    by (simp add: validateApiKey_def)
next
  fix k err
  assume h: "apiKey = JStr k \<and> starts_with k (js_lit ''sk-'')
         \<and> fetch_result w (js_lit ''https://api.openai.com/v1/models'') (js_lit ''Bearer '' @ k) = Inl err"
  then have "k \<noteq> []" by (auto simp: starts_with_def js_lit_def)
  then have "\<not> bad_format apiKey" using h by (simp add: bad_format_def)
  then show "validateApiKey w apiKey =
        (Inr \<lparr>success = False,
              error_message = JStr (js_lit ''A network error occurred during validation.'')\<rparr>,
         [Fetch (js_lit ''https://api.openai.com/v1/models'') (js_lit ''Bearer '' @ k),
          Console LevelError ''[Mastra] Network error during key validation:'' [Err err]])"
    using h by (simp add: validateApiKey_def validate_body_def key_string_def Let_def)
next
  show "\<exists>v es. validateApiKey w apiKey = (Inr v, es)"
    by (auto simp: validateApiKey_def split: prod.splits sum.splits)
qed

text \<open>Instances: the number 5, and the key \<open>sk-abc\<close> with the network down.\<close>

theorem validateApiKey_failures_witness:
  "validateApiKey quiet_world (JNum 5) =
     (Inr \<lparr>success = False,
           error_message = JStr (js_lit ''Invalid OpenAI API key format.'')\<rparr>, [])
   \<and> validateApiKey quiet_world (JStr (js_lit ''sk-abc'')) =
     (Inr \<lparr>success = False,
           error_message = JStr (js_lit ''A network error occurred during validation.'')\<rparr>,
      [Fetch (js_lit ''https://api.openai.com/v1/models'') (js_lit ''Bearer '' @ js_lit ''sk-abc''),
       Console LevelError ''[Mastra] Network error during key validation:''
         [Err (TypeError (js_lit ''fetch failed''))]])"
proof -
  have 1: "starts_with (js_lit ''sk-abc'') (js_lit ''sk-'')"
    by (simp add: starts_with_def js_lit_def)
  have 2: "fetch_result quiet_world (js_lit ''https://api.openai.com/v1/models'')
      (js_lit ''Bearer '' @ js_lit ''sk-abc'') = Inl (TypeError (js_lit ''fetch failed''))"
    by (simp add: quiet_world_def)
  from validateApiKey_failures[of "JNum 5" quiet_world]
    validateApiKey_failures[of "JStr (js_lit ''sk-abc'')" quiet_world] 1 2
  show ?thesis by auto
qed

lemma stream_body_on_cached:
  assumes "teachingAssistantAgent s = Some a" and "stream_body w ms opts s = (r, s')"
  shows "teachingAssistantAgent s' = Some a \<and> currentApiKey s' = currentApiKey s
    \<and> next_ref s' = next_ref s \<and> mastraModules s' = mastraModules s \<and> mcpClient s' = mcpClient s
    \<and> (\<exists>es. effects s' = effects s @ es \<and> list_all (on_cached a ms (currentApiKey s)) es
          \<and> ((\<exists>resp. r = Inr resp) \<longrightarrow>
               Generate a ms (generate_options_of w opts (currentApiKey s)) \<in> set es))"
  using assms
  by (auto simp: stream_body_def seq_def do_emit_def emit_def lift_def throw_def
        generate_options_of_def Let_def
      split: sum.splits if_splits prod.splits)

lemma createMastraStream_on_cached:
  assumes "teachingAssistantAgent s = Some a" and "createMastraStream w ms opts s = (r, s')"
  shows "teachingAssistantAgent s' = Some a \<and> currentApiKey s' = currentApiKey s
    \<and> next_ref s' = next_ref s \<and> mastraModules s' = mastraModules s \<and> mcpClient s' = mcpClient s
    \<and> list_all (on_cached a ms (currentApiKey s)) (new_effects s s')
    \<and> ((\<exists>resp. r = Inr resp) \<longrightarrow>
          Generate a ms (generate_options_of w opts (currentApiKey s)) \<in> set (new_effects s s'))"
proof (cases "stream_body w ms opts s")
  case (Pair r0 s0)
  from stream_body_on_cached[OF assms(1) Pair] obtain es where
    0: "teachingAssistantAgent s0 = Some a" "currentApiKey s0 = currentApiKey s"
      "next_ref s0 = next_ref s" "mastraModules s0 = mastraModules s" "mcpClient s0 = mcpClient s"
      "effects s0 = effects s @ es" "list_all (on_cached a ms (currentApiKey s)) es"
      "(\<exists>resp. r0 = Inr resp) \<longrightarrow>
         Generate a ms (generate_options_of w opts (currentApiKey s)) \<in> set es"
    by blast
  show ?thesis
  proof (cases r0)
    case (Inl err)
    then have "r = Inl err" "s' = emit (Console LevelError ''[Mastra] Error in createMastraStream:'' [Err err]) s0"
      using assms(2) Pair by (simp_all add: createMastraStream_def)
    then show ?thesis using 0 by (simp add: emit_def new_effects_def)
  next
    case (Inr resp)
    then have "r = Inr resp" "s' = s0"
      using assms(2) Pair by (simp_all add: createMastraStream_def)
    then show ?thesis using 0 Inr by (simp add: new_effects_def)
  qed
qed

lemma createMastraStream_wf:
  assumes "wf_state s" "createMastraStream w ms opts s = (r, s')"
  shows "wf_state s'"
proof (cases "teachingAssistantAgent s")
  case None
  then show ?thesis using assms
    by (auto simp: createMastraStream_def stream_body_def throw_def emit_def wf_state_def)
next
  case (Some a)
  from createMastraStream_on_cached[OF Some assms(2)] assms(1) Some
  show ?thesis by (simp add: wf_state_def)
qed



text \<open>
  C10. \<open>model\<close>, \<open>temperature\<close> and \<open>maxTokens\<close> are bound at line 403 and never
  read: two configurations that differ in them only give the same \<open>streamChat\<close>,
  hence, from the same state, with the same conversation and surroundings, the
  same call of \<open>generate\<close> and the same stream.
\<close>

theorem unused_generation_settings:
  "createStreamingLLM (cfg\<lparr>cfg_model := m, cfg_temperature := t, cfg_maxTokens := n\<rparr>) =
     createStreamingLLM cfg"
  by (simp add: createStreamingLLM_def Let_def)

text \<open>An instance.\<close>

theorem unused_generation_settings_witness:
  "streamChat (createStreamingLLM
      \<lparr>cfg_apiKey = key_one, cfg_model = JStr (js_lit ''gpt-4o-mini''), cfg_temperature = JNum 0,
       cfg_maxTokens = JNum 16, cfg_resourceId = JUndefined, cfg_threadId = JUndefined,
       cfg_maxSteps = JUndefined, cfg_rest = []\<rparr>) quiet_world [] state_one =
   streamChat (createStreamingLLM
      \<lparr>cfg_apiKey = key_one, cfg_model = JUndefined, cfg_temperature = JUndefined,
       cfg_maxTokens = JUndefined, cfg_resourceId = JUndefined, cfg_threadId = JUndefined,
       cfg_maxSteps = JUndefined, cfg_rest = []\<rparr>) quiet_world [] state_one"
  using unused_generation_settings[where
      cfg = "\<lparr>cfg_apiKey = key_one, cfg_model = JUndefined, cfg_temperature = JUndefined,
       cfg_maxTokens = JUndefined, cfg_resourceId = JUndefined, cfg_threadId = JUndefined,
       cfg_maxSteps = JUndefined, cfg_rest = []\<rparr>"
      and m = "JStr (js_lit ''gpt-4o-mini'')" and t = "JNum 0" and n = "JNum 16"]
  by simp


end
